theory Spec2Isabelle
  imports Main
begin

section \<open>Value types (project\_types.py)\<close>

text \<open>
  The enumerations of \<^verbatim>\<open>project_types.py\<close> are datatypes whose constructors
  are listed in the order of the Python enum, which is the order \<^verbatim>\<open>for rank in Rank\<close>
  iterates in. \<^verbatim>\<open>PlayerId\<close> is a \<^verbatim>\<open>NewType\<close> of \<^verbatim>\<open>int\<close>, so a
  player is an \<open>int\<close> here.
\<close>

type_synonym PlayerId = int

datatype Rank = ACE | TWO | THREE | FOUR | FIVE | SIX | SEVEN | EIGHT | NINE | TEN
  | JACK | QUEEN | KING

datatype Suit = CLUBS | DIAMONDS | HEARTS | SPADES

datatype Card = Card (rank: Rank) (suit: Suit)

datatype ParseState =
    REGULAR_ROUND
  | REGULAR_PLAYER_1_LABEL
  | REGULAR_PLAYER_1_CARD
  | REGULAR_PLAYER_2_LABEL
  | REGULAR_PLAYER_2_CARD
  | ROUND_WINNER
  | COMMENCING_WAR
  | WAR_ROUND
  | WAR_PLAYER_1_LABEL
  | WAR_PLAYER_1_CARD_UP
  | WAR_PLAYER_1_CARD_DOWN
  | WAR_PLAYER_2_LABEL
  | WAR_PLAYER_2_CARD_UP
  | WAR_PLAYER_2_CARD_DOWN
  | CONTINUING_WAR
  | WINNER_PLAYER_1
  | WINNER_PLAYER_2
  | DRAW
  | NO_MORE_LINES

datatype WarState = NO_WAR | WAR_START | WAR_ONGOING | WAR_END

text \<open>\<^verbatim>\<open>GameEndState.DRAW\<close> is \<open>GAME_DRAW\<close>: the name \<open>DRAW\<close> is the parse state's.\<close>

datatype GameEndState = PLAYER_1_WIN | PLAYER_2_WIN | GAME_DRAW

text \<open>
  The \<^verbatim>\<open>Line\<close> class hierarchy is a closed sum: every subclass is a dataclass and
  none is subclassed again, so a class pattern \<^verbatim>\<open>RoundLine()\<close> of a \<^verbatim>\<open>match\<close>
  is the discriminator \<open>is_RoundLine\<close>. (The field \<^verbatim>\<open>text\<close> of \<^verbatim>\<open>MalformedLine\<close>
  is \<open>line_text\<close>: \<open>text\<close> is a keyword.)
\<close>

datatype Line =
    is_RoundLine: RoundLine int
  | is_PlayerLabelLine: PlayerLabelLine (player_number: int)
  | is_FaceUpCardLine: FaceUpCardLine Rank Suit
  | is_FaceDownCardLine: FaceDownCardLine Rank Suit
  | is_RoundWinnerLine: RoundWinnerLine (player_number: int) Rank Suit
  | is_CommencingWarLine: CommencingWarLine
  | is_WarRoundLine: WarRoundLine int int
  | is_ContinuingWarLine: ContinuingWarLine
  | is_GameWinnerLine: GameWinnerLine (winner: int) (card_count: int)
  | is_DrawLine: DrawLine
  | is_EmptyLine: EmptyLine
  | is_MalformedLine: MalformedLine (line_text: string)

section \<open>The protocol state machine (parser.py, ParseStateMachine)\<close>

text \<open>
  A \<^verbatim>\<open>match\<close> statement runs the first case whose pattern matches and then leaves
  the statement: a case whose inner \<^verbatim>\<open>if\<close> fails does not fall through to a later
  case, and the function returns \<^verbatim>\<open>None\<close>. The chains below keep the order of the
  cases of the source.
\<close>

definition next_state_game_end ::
  "ParseState \<Rightarrow> Line \<Rightarrow> GameEndState \<Rightarrow> ParseState option" where
  "next_state_game_end state line_type game_end_state =
    (if state = REGULAR_ROUND \<and> is_RoundLine line_type \<and> game_end_state = PLAYER_1_WIN
       then Some WINNER_PLAYER_1
     else if state = REGULAR_ROUND \<and> is_RoundLine line_type \<and> game_end_state = PLAYER_2_WIN
       then Some WINNER_PLAYER_2
     else if state = REGULAR_ROUND \<and> is_RoundLine line_type \<and> game_end_state = GAME_DRAW
       then Some DRAW
     else if state = WAR_ROUND \<and> is_WarRoundLine line_type \<and> game_end_state = PLAYER_1_WIN
       then Some WINNER_PLAYER_1
     else if state = WAR_ROUND \<and> is_WarRoundLine line_type \<and> game_end_state = PLAYER_2_WIN
       then Some WINNER_PLAYER_2
     else if state = WAR_ROUND \<and> is_WarRoundLine line_type \<and> game_end_state = GAME_DRAW
       then Some DRAW
     else if state = WINNER_PLAYER_1 \<and> is_GameWinnerLine line_type
       then (if winner line_type = 1 then Some NO_MORE_LINES else None)
     else if state = WINNER_PLAYER_2 \<and> is_GameWinnerLine line_type
       then (if winner line_type = 2 then Some NO_MORE_LINES else None)
     else if state = DRAW \<and> is_DrawLine line_type
       then Some NO_MORE_LINES
     else None)"

definition next_state_game_ongoing ::
  "ParseState \<Rightarrow> Line \<Rightarrow> WarState \<Rightarrow> ParseState option" where
  "next_state_game_ongoing state line_type war_state =
    (if state = REGULAR_ROUND \<and> is_RoundLine line_type \<and> war_state = NO_WAR
       then Some REGULAR_PLAYER_1_LABEL
     else if state = REGULAR_PLAYER_1_LABEL \<and> is_PlayerLabelLine line_type \<and> war_state = NO_WAR
       then (if player_number line_type = 1 then Some REGULAR_PLAYER_1_CARD else None)
     else if state = REGULAR_PLAYER_1_CARD \<and> is_FaceUpCardLine line_type \<and> war_state = NO_WAR
       then Some REGULAR_PLAYER_2_LABEL
     else if state = REGULAR_PLAYER_2_LABEL \<and> is_PlayerLabelLine line_type \<and> war_state = NO_WAR
       then (if player_number line_type = 2 then Some REGULAR_PLAYER_2_CARD else None)
     else if state = REGULAR_PLAYER_2_CARD \<and> is_FaceUpCardLine line_type \<and> war_state = NO_WAR
       then Some ROUND_WINNER
     else if state = REGULAR_PLAYER_2_CARD \<and> is_FaceUpCardLine line_type \<and> war_state = WAR_START
       then Some COMMENCING_WAR
     else if state = REGULAR_PLAYER_2_CARD \<and> is_FaceUpCardLine line_type \<and> war_state = WAR_ONGOING
       then Some CONTINUING_WAR
     else if state = REGULAR_PLAYER_2_CARD \<and> is_FaceUpCardLine line_type \<and> war_state = WAR_END
       then Some ROUND_WINNER
     else if state = ROUND_WINNER \<and> is_RoundWinnerLine line_type \<and> war_state = NO_WAR
       then (if player_number line_type \<in> {1, 2} then Some REGULAR_ROUND else None)
     else if state = COMMENCING_WAR \<and> is_CommencingWarLine line_type \<and> war_state = WAR_ONGOING
       then Some WAR_ROUND
     else if state = WAR_ROUND \<and> is_WarRoundLine line_type \<and> war_state = WAR_ONGOING
       then Some WAR_PLAYER_1_LABEL
     else if state = WAR_PLAYER_1_LABEL \<and> is_PlayerLabelLine line_type \<and> war_state = WAR_ONGOING
       then (if player_number line_type = 1 then Some WAR_PLAYER_1_CARD_UP else None)
     else if state = WAR_PLAYER_1_CARD_UP \<and> is_FaceUpCardLine line_type \<and> war_state = WAR_ONGOING
       then Some WAR_PLAYER_1_CARD_DOWN
     else if state = WAR_PLAYER_1_CARD_DOWN \<and> is_FaceDownCardLine line_type
         \<and> war_state = WAR_ONGOING
       then Some WAR_PLAYER_2_LABEL
     else if state = WAR_PLAYER_2_LABEL \<and> is_PlayerLabelLine line_type \<and> war_state = WAR_ONGOING
       then (if player_number line_type = 2 then Some WAR_PLAYER_2_CARD_UP else None)
     else if state = WAR_PLAYER_2_CARD_UP \<and> is_FaceUpCardLine line_type \<and> war_state = WAR_ONGOING
       then Some WAR_PLAYER_2_CARD_DOWN
     else if state = WAR_PLAYER_2_CARD_DOWN \<and> is_FaceDownCardLine line_type
         \<and> war_state = WAR_ONGOING
       then Some CONTINUING_WAR
     else if state = WAR_PLAYER_2_CARD_DOWN \<and> is_FaceDownCardLine line_type
         \<and> war_state = WAR_END
       then Some ROUND_WINNER
     else if state = CONTINUING_WAR \<and> is_ContinuingWarLine line_type \<and> war_state = WAR_ONGOING
       then Some WAR_ROUND
     else None)"

definition next_state ::
  "ParseState \<Rightarrow> Line \<Rightarrow> WarState \<Rightarrow> GameEndState option \<Rightarrow> ParseState option" where
  "next_state state line_type war_state game_end_state =
    (if is_EmptyLine line_type then Some state
     else case game_end_state of
       Some g \<Rightarrow> next_state_game_end state line_type g
     | None \<Rightarrow> next_state_game_ongoing state line_type war_state)"

text \<open>
  \<^verbatim>\<open>update_state\<close> on the machine's one attribute: the state is replaced only when
  the transition exists, and the transition's result is returned either way.
\<close>

definition update_state ::
  "ParseState \<Rightarrow> Line \<Rightarrow> WarState \<Rightarrow> GameEndState option \<Rightarrow> ParseState option \<times> ParseState"
  where
  "update_state st line_type war_state game_end_state =
    (case next_state st line_type war_state game_end_state of
       None \<Rightarrow> (None, st)
     | Some nxt \<Rightarrow> (Some nxt, nxt))"

text \<open>Feeding a list of records, each with the war state and outcome it is presented under.\<close>

fun feed :: "ParseState \<Rightarrow> (Line \<times> WarState \<times> GameEndState option) list \<Rightarrow> ParseState option"
  where
  "feed st [] = Some st"
| "feed st ((l, w, g) # rest) =
    (case next_state st l w g of None \<Rightarrow> None | Some nxt \<Rightarrow> feed nxt rest)"

section \<open>Errors and exceptions (validator.py)\<close>

text \<open>
  A \<^verbatim>\<open>ValidationError\<close> carries a formatted message. The model keeps one
  constructor for each message of the source, with the values the message is formatted
  from, and drops the wording.
\<close>

datatype ValidationError =
    NotInDeck Card PlayerId
  | NotInTopmostGroup Card PlayerId
  | AlreadyInPlay Card
  | NotInPlay Card PlayerId
  | AlreadyHasFaceUp PlayerId Card Card
  | NoFaceUpCard PlayerId
  | WrongRoundNumber int int
  | WrongWarRoundNumber int int
  | NoCardCanBePlayed Card
  | MultipleWinners "PlayerId list" int
  | WrongWinner PlayerId int
  | WrongWinningCard PlayerId "Card option" Card
  | SingleWinner "PlayerId list" bool
  | EncounteredMalformedLine string
  | UnexpectedLine Line ParseState WarState "GameEndState option" "(PlayerId \<times> int) list"
  | is_GameDidNotEnd:
      GameDidNotEnd ParseState WarState "GameEndState option" "(PlayerId \<times> int) list"

text \<open>
  The source returns a \<^verbatim>\<open>ValidationError\<close> or \<^verbatim>\<open>None\<close>; what it raises
  instead (a missing dictionary key, an index into an empty list) is the outcome
  \<open>Raises\<close>, which ends the run.
\<close>

datatype py_exception = KeyError | IndexError

datatype 'a outcome = Raises py_exception | Returns 'a

section \<open>Dictionaries in insertion order\<close>

text \<open>
  The per-player dictionaries are iterated by the source (\<^verbatim>\<open>.items()\<close>), so they
  are association lists in insertion order. Reading a missing key raises; assigning to a
  present key keeps its position.
\<close>

definition dict_get :: "('k \<times> 'v) list \<Rightarrow> 'k \<Rightarrow> 'v outcome" where
  "dict_get d k = (case map_of d k of None \<Rightarrow> Raises KeyError | Some v \<Rightarrow> Returns v)"

fun dict_set :: "('k \<times> 'v) list \<Rightarrow> 'k \<Rightarrow> 'v \<Rightarrow> ('k \<times> 'v) list" where
  "dict_set [] k v = [(k, v)]"
| "dict_set ((k', v') # d) k v = (if k' = k then (k, v) # d else (k', v') # dict_set d k v)"

section \<open>Cards and decks\<close>

definition rank_order :: "Rank list" where
  "rank_order = [ACE, TWO, THREE, FOUR, FIVE, SIX, SEVEN, EIGHT, NINE, TEN, JACK, QUEEN, KING]"

definition suit_order :: "Suit list" where
  "suit_order = [CLUBS, DIAMONDS, HEARTS, SPADES]"

definition standard_cards :: "Card list" where
  "standard_cards = concat (map (\<lambda>r. map (\<lambda>s. Card r s) suit_order) rank_order)"

text \<open>
  \<^verbatim>\<open>CardGroupDeck\<close>: an ordered list of unordered sets of cards. Every set stored
  in a deck is a fresh copy (\<^verbatim>\<open>set(initial)\<close>, \<^verbatim>\<open>set(cards)\<close>), so no two
  decks share a set and a value model is exact.
\<close>

type_synonym CardGroupDeck = "Card set list"

definition new_CardGroupDeck :: "Card list \<Rightarrow> CardGroupDeck" where
  "new_CardGroupDeck initial = (if initial \<noteq> [] then [set initial] else [])"

definition deck_len :: "CardGroupDeck \<Rightarrow> nat" where
  "deck_len groups = sum_list (map card groups)"

definition can_draw :: "CardGroupDeck \<Rightarrow> Card \<Rightarrow> bool" where
  "can_draw groups c = (case groups of [] \<Rightarrow> False | g # _ \<Rightarrow> c \<in> g)"

fun remove_if_present :: "Card \<Rightarrow> CardGroupDeck \<Rightarrow> CardGroupDeck" where
  "remove_if_present c [] = []"
| "remove_if_present c (g # gs) =
    (if c \<in> g then (if g - {c} = {} then gs else (g - {c}) # gs)
     else g # remove_if_present c gs)"

definition add_set_to_bottom :: "Card set \<Rightarrow> CardGroupDeck \<Rightarrow> CardGroupDeck" where
  "add_set_to_bottom cards groups = groups @ [cards]"

section \<open>The card-consistency tracker (CardConsistencyValidator)\<close>

record CardConsistencyValidator =
  owner :: "Card \<Rightarrow> PlayerId option"
  cards_in_play :: "Card set"
  card_group_decks :: "(PlayerId \<times> CardGroupDeck) list"
  actual_card_counts :: "(PlayerId \<times> int) list"

definition new_CardConsistencyValidator ::
  "(PlayerId \<times> int \<times> Card list) list \<Rightarrow> CardConsistencyValidator" where
  "new_CardConsistencyValidator initial =
    \<lparr> owner = Map.empty,
      cards_in_play = {},
      card_group_decks = map (\<lambda>(player_id, _, possible_draws).
                                (player_id, new_CardGroupDeck possible_draws)) initial,
      actual_card_counts = map (\<lambda>(player_id, n, _). (player_id, n)) initial \<rparr>"

definition default_CardConsistencyValidator :: CardConsistencyValidator where
  "default_CardConsistencyValidator =
    new_CardConsistencyValidator [(1, 26, standard_cards), (2, 26, standard_cards)]"

definition get_player_cards_left :: "CardConsistencyValidator \<Rightarrow> (PlayerId \<times> int) list" where
  "get_player_cards_left self = actual_card_counts self"

definition ensure_card_not_duplicated ::
  "Card \<Rightarrow> PlayerId \<Rightarrow> CardConsistencyValidator \<Rightarrow> ValidationError option" where
  "ensure_card_not_duplicated c player_id self =
    (case owner self c of
       Some own \<Rightarrow> (if own \<noteq> player_id then Some (NotInDeck c player_id) else None)
     | None \<Rightarrow> None)"

definition ensure_card_in_deck ::
  "Card \<Rightarrow> PlayerId \<Rightarrow> CardConsistencyValidator \<Rightarrow> ValidationError option outcome" where
  "ensure_card_in_deck c player_id self =
    (case dict_get (card_group_decks self) player_id of
       Raises x \<Rightarrow> Raises x
     | Returns deck \<Rightarrow>
         Returns (if \<not> can_draw deck c then Some (NotInTopmostGroup c player_id) else None))"

definition ensure_card_not_in_play ::
  "Card \<Rightarrow> CardConsistencyValidator \<Rightarrow> ValidationError option" where
  "ensure_card_not_in_play c self =
    (if c \<in> cards_in_play self then Some (AlreadyInPlay c) else None)"

definition validate_played_card_rules ::
  "Card \<Rightarrow> PlayerId \<Rightarrow> CardConsistencyValidator \<Rightarrow> ValidationError option outcome" where
  "validate_played_card_rules c player_id self =
    (case ensure_card_not_duplicated c player_id self of
       Some e \<Rightarrow> Returns (Some e)
     | None \<Rightarrow>
        (case ensure_card_in_deck c player_id self of
           Raises x \<Rightarrow> Raises x
         | Returns (Some e) \<Rightarrow> Returns (Some e)
         | Returns None \<Rightarrow> Returns (ensure_card_not_in_play c self)))"

text \<open>
  \<^verbatim>\<open>card_played_by\<close>: the rules are checked before anything is changed, so a
  returned error leaves the tracker as it was.
\<close>

definition card_played_by ::
  "Card \<Rightarrow> PlayerId \<Rightarrow> CardConsistencyValidator
    \<Rightarrow> (ValidationError option \<times> CardConsistencyValidator) outcome" where
  "card_played_by c player_id self =
    (case validate_played_card_rules c player_id self of
       Raises x \<Rightarrow> Raises x
     | Returns (Some e) \<Rightarrow> Returns (Some e, self)
     | Returns None \<Rightarrow>
        (case dict_get (actual_card_counts self) player_id of
           Raises x \<Rightarrow> Raises x
         | Returns n \<Rightarrow>
             Returns (None,
               self\<lparr> owner := (owner self)(c := None),
                     cards_in_play := insert c (cards_in_play self),
                     actual_card_counts := dict_set (actual_card_counts self) player_id (n - 1),
                     card_group_decks :=
                       map (\<lambda>(p, deck). (p, remove_if_present c deck)) (card_group_decks self) \<rparr>)))"

definition ensure_card_in_play ::
  "Card \<Rightarrow> PlayerId \<Rightarrow> CardConsistencyValidator \<Rightarrow> ValidationError option" where
  "ensure_card_in_play c player_id self =
    (if owner self c = None \<and> c \<notin> cards_in_play self then Some (NotInPlay c player_id)
     else None)"

fun validate_cards_added_rules ::
  "Card list \<Rightarrow> PlayerId \<Rightarrow> CardConsistencyValidator \<Rightarrow> ValidationError option" where
  "validate_cards_added_rules [] player_id self = None"
| "validate_cards_added_rules (c # cs) player_id self =
    (case ensure_card_in_play c player_id self of
       Some e \<Rightarrow> Some e
     | None \<Rightarrow> validate_cards_added_rules cs player_id self)"

text \<open>
  The loop of \<^verbatim>\<open>_validate_cards_added_rules\<close> iterates a Python set, in an order
  the language does not fix. \<open>iteration_of\<close> lists a set in the order of the standard
  deck; the order only decides which of several failing cards an error would name.
\<close>

definition iteration_of :: "Card set \<Rightarrow> Card list" where
  "iteration_of cards = filter (\<lambda>c. c \<in> cards) standard_cards"

definition cards_added_to_deck_bottom ::
  "Card set \<Rightarrow> PlayerId \<Rightarrow> CardConsistencyValidator
    \<Rightarrow> (ValidationError option \<times> CardConsistencyValidator) outcome" where
  "cards_added_to_deck_bottom cards player_id self =
    (case validate_cards_added_rules (iteration_of cards) player_id self of
       Some e \<Rightarrow> Returns (Some e, self)
     | None \<Rightarrow>
        (case dict_get (card_group_decks self) player_id of
           Raises x \<Rightarrow> Raises x
         | Returns deck \<Rightarrow>
             Returns (None,
               self\<lparr> card_group_decks :=
                 dict_set (card_group_decks self) player_id (add_set_to_bottom cards deck) \<rparr>)))"

text \<open>
  \<^verbatim>\<open>cards_in_play_taken_by\<close> updates the count and clears the cards in play
  whether or not the check returned an error, and returns the check's result.
\<close>

definition cards_in_play_taken_by ::
  "PlayerId \<Rightarrow> CardConsistencyValidator
    \<Rightarrow> (ValidationError option \<times> CardConsistencyValidator) outcome" where
  "cards_in_play_taken_by player_id self =
    (case cards_added_to_deck_bottom (cards_in_play self) player_id self of
       Raises x \<Rightarrow> Raises x
     | Returns (ret, self1) \<Rightarrow>
        (case dict_get (actual_card_counts self1) player_id of
           Raises x \<Rightarrow> Raises x
         | Returns n \<Rightarrow>
             Returns (ret,
               self1\<lparr> actual_card_counts :=
                        dict_set (actual_card_counts self1) player_id
                          (n + int (card (cards_in_play self1))),
                      cards_in_play := {} \<rparr>)))"

text \<open>
  The tracker states a run can reach: the standard start, and what a successful
  \<^verbatim>\<open>card_played_by\<close> or \<^verbatim>\<open>cards_in_play_taken_by\<close> leaves.
\<close>

datatype tracker_op = PlayCard Card PlayerId | CollectTrick PlayerId

fun apply_op ::
  "tracker_op \<Rightarrow> CardConsistencyValidator
    \<Rightarrow> (ValidationError option \<times> CardConsistencyValidator) outcome" where
  "apply_op (PlayCard c p) self = card_played_by c p self"
| "apply_op (CollectTrick p) self = cards_in_play_taken_by p self"

fun run_ops :: "tracker_op list \<Rightarrow> CardConsistencyValidator \<Rightarrow> CardConsistencyValidator option"
  where
  "run_ops [] self = Some self"
| "run_ops (x # xs) self =
    (case apply_op x self of
       Returns (None, self1) \<Rightarrow> run_ops xs self1
     | _ \<Rightarrow> None)"

inductive tracker_reachable :: "CardConsistencyValidator \<Rightarrow> bool" where
  start: "tracker_reachable default_CardConsistencyValidator"
| step: "tracker_reachable self \<Longrightarrow> apply_op x self = Returns (None, self1)
          \<Longrightarrow> tracker_reachable self1"

section \<open>The trick comparer (CardComparer)\<close>

record CardComparer =
  player_ids :: "PlayerId list"
  played_cards :: "PlayerId \<Rightarrow> Card option"

definition new_CardComparer :: "PlayerId list \<Rightarrow> CardComparer" where
  "new_CardComparer ids = \<lparr> player_ids = ids, played_cards = Map.empty \<rparr>"

definition default_CardComparer :: CardComparer where
  "default_CardComparer = new_CardComparer [1, 2]"

definition reset_played_cards :: "CardComparer \<Rightarrow> CardComparer" where
  "reset_played_cards self = self\<lparr> played_cards := Map.empty \<rparr>"

text \<open>A \<^verbatim>\<open>Card\<close> is always truthy, so the walrus test is a test for presence.\<close>

definition face_up_card_played_by ::
  "Card \<Rightarrow> PlayerId \<Rightarrow> CardComparer \<Rightarrow> ValidationError option \<times> CardComparer" where
  "face_up_card_played_by c player_id self =
    (case played_cards self player_id of
       Some card_in_play \<Rightarrow> (Some (AlreadyHasFaceUp player_id c card_in_play), self)
     | None \<Rightarrow> (None, self\<lparr> played_cards := (played_cards self)(player_id \<mapsto> c) \<rparr>))"

definition get_current_face_up_card :: "PlayerId \<Rightarrow> CardComparer \<Rightarrow> Card option" where
  "get_current_face_up_card player_id self = played_cards self player_id"

text \<open>
  \<^verbatim>\<open>list.index\<close>: the position of the first occurrence. Every rank occurs in
  \<open>rank_order\<close>, so the \<^verbatim>\<open>ValueError\<close> of a missing element cannot arise there.
\<close>

fun index_of :: "'a list \<Rightarrow> 'a \<Rightarrow> nat" where
  "index_of [] x = 0"
| "index_of (y # ys) x = (if x = y then 0 else Suc (index_of ys x))"

text \<open>
  The loop of \<^verbatim>\<open>determine_winners\<close>, with its two variables \<^verbatim>\<open>ret\<close> and
  \<^verbatim>\<open>best_so_far\<close>. \<^verbatim>\<open>best_so_far\<close> is assigned once, by the first player.
\<close>

fun determine_winners_loop ::
  "(PlayerId \<Rightarrow> Card option) \<Rightarrow> PlayerId list \<Rightarrow> PlayerId list \<Rightarrow> Card option
    \<Rightarrow> ValidationError + PlayerId list" where
  "determine_winners_loop played [] ret best_so_far = Inr ret"
| "determine_winners_loop played (player_id # rest) ret best_so_far =
    (case played player_id of
       None \<Rightarrow> Inl (NoFaceUpCard player_id)
     | Some c \<Rightarrow>
        (case best_so_far of
           None \<Rightarrow> determine_winners_loop played rest (ret @ [player_id]) (Some c)
         | Some best \<Rightarrow>
            (let self_rank = index_of rank_order (rank c);
                 best_rank = index_of rank_order (rank best);
                 ret1 = (if self_rank > best_rank then [] else ret);
                 ret2 = (if self_rank \<ge> best_rank then ret1 @ [player_id] else ret1)
             in determine_winners_loop played rest ret2 (Some best))))"

definition determine_winners :: "CardComparer \<Rightarrow> ValidationError + PlayerId list" where
  "determine_winners self =
    determine_winners_loop (played_cards self) (player_ids self) [] None"

section \<open>The line classifier (parser.py, LineParser)\<close>

text \<open>
  Strings are lists of characters, and a character is a code point below 256.
  \<open>is_space\<close> is \<^verbatim>\<open>str.isspace\<close> on these code points: tab, line feed,
  vertical tab, form feed, carriage return, the four separators 0x1C to 0x1F, the space,
  the next-line character 0x85 and the no-break space 0xA0. This is what
  \<^verbatim>\<open>str.strip()\<close> removes at both ends. Below 256 the class \<^verbatim>\<open>\d\<close>
  holds the ten ASCII digits only.
\<close>

definition is_digit :: "char \<Rightarrow> bool" where
  "is_digit c = (c \<in> set ''0123456789'')"

definition is_letter :: "char \<Rightarrow> bool" where
  "is_letter c = (c \<in> set ''ABCDEFGHIJKLMNOPQRSTUVWXYZabcdefghijklmnopqrstuvwxyz'')"

definition is_space :: "char \<Rightarrow> bool" where
  "is_space c = (c \<in> set [CHR 0x09, CHR 0x0A, CHR 0x0B, CHR 0x0C, CHR 0x0D,
                           CHR 0x1C, CHR 0x1D, CHR 0x1E, CHR 0x1F, CHR 0x20,
                           CHR 0x85, CHR 0xA0])"

definition strip :: "string \<Rightarrow> string" where
  "strip s = rev (dropWhile is_space (rev (dropWhile is_space s)))"

text \<open>
  \<^verbatim>\<open>int(...)\<close> of a string of decimal digits. CPython refuses, with
  \<^verbatim>\<open>ValueError\<close>, a string of more than 4300 digits (the default of
  \<^verbatim>\<open>sys.get_int_max_str_digits()\<close>); this is the only way the
  \<^verbatim>\<open>except ValueError\<close> branches of \<^verbatim>\<open>parse_line\<close> can be taken, since the
  patterns capture digits only.
\<close>

definition int_max_str_digits :: nat where
  "int_max_str_digits = 4300"

definition digit_value :: "char \<Rightarrow> int" where
  "digit_value c = int (index_of ''0123456789'' c)"

definition py_int :: "string \<Rightarrow> int option" where
  "py_int ds =
    (if length ds > int_max_str_digits then None
     else Some (foldl (\<lambda>n c. 10 * n + digit_value c) 0 ds))"

text \<open>\<^verbatim>\<open>Rank.from_str\<close> and \<^verbatim>\<open>Suit.from_str\<close>: the first member with that value.\<close>

fun rank_value :: "Rank \<Rightarrow> string" where
  "rank_value ACE = ''Ace''"
| "rank_value TWO = ''Two''"
| "rank_value THREE = ''Three''"
| "rank_value FOUR = ''Four''"
| "rank_value FIVE = ''Five''"
| "rank_value SIX = ''Six''"
| "rank_value SEVEN = ''Seven''"
| "rank_value EIGHT = ''Eight''"
| "rank_value NINE = ''Nine''"
| "rank_value TEN = ''Ten''"
| "rank_value JACK = ''Jack''"
| "rank_value QUEEN = ''Queen''"
| "rank_value KING = ''King''"

fun suit_value :: "Suit \<Rightarrow> string" where
  "suit_value CLUBS = ''Clubs''"
| "suit_value DIAMONDS = ''Diamonds''"
| "suit_value HEARTS = ''Hearts''"
| "suit_value SPADES = ''Spades''"

definition rank_from_str :: "string \<Rightarrow> Rank option" where
  "rank_from_str s = find (\<lambda>r. rank_value r = s) rank_order"

definition suit_from_str :: "string \<Rightarrow> Suit option" where
  "suit_from_str s = find (\<lambda>x. suit_value x = s) suit_order"

subsection \<open>The patterns\<close>

text \<open>
  The regular expressions of \<^verbatim>\<open>LineParser.__init__\<close> are sequences of literals and
  of the two repeated classes \<^verbatim>\<open>\d+\<close> and \<^verbatim>\<open>[A-Za-z]+\<close>, anchored at both
  ends. In each of them a repeated class is followed either by the end of the line or by
  a literal whose first character is outside the class, so the only possible match of
  the class is the longest one and matching needs no backtracking: \<open>plus_of\<close> takes
  the longest non-empty run. A pattern returns its captured groups.
\<close>

fun lit :: "string \<Rightarrow> string \<Rightarrow> string option" where
  "lit [] s = Some s"
| "lit (c # cs) [] = None"
| "lit (c # cs) (x # xs) = (if c = x then lit cs xs else None)"

definition plus_of :: "(char \<Rightarrow> bool) \<Rightarrow> string \<Rightarrow> (string \<times> string) option" where
  "plus_of cls s =
    (if takeWhile cls s = [] then None else Some (takeWhile cls s, dropWhile cls s))"

definition at_end :: "'a \<Rightarrow> string \<Rightarrow> 'a option" where
  "at_end v s = (if s = [] then Some v else None)"

definition player_pattern :: "string \<Rightarrow> (string \<times> string) option" where
  "player_pattern s = Option.bind (lit ''Player '' s) (plus_of is_digit)"

definition card_pattern :: "string \<Rightarrow> ((string \<times> string) \<times> string) option" where
  "card_pattern s =
    Option.bind (plus_of is_letter s) (\<lambda>(rank_str, r1).
    Option.bind (lit '' of '' r1) (\<lambda>r2.
    Option.bind (plus_of is_letter r2) (\<lambda>(suit_str, r3).
    Some ((rank_str, suit_str), r3))))"

definition round_pattern :: "string \<Rightarrow> (string \<times> string) option" where
  "round_pattern s = Option.bind (lit ''Round '' s) (plus_of is_digit)"

definition round_line_pattern :: "string \<Rightarrow> string option" where
  "round_line_pattern s = Option.bind (round_pattern s) (\<lambda>(n, r). at_end n r)"

definition player_label_line_pattern :: "string \<Rightarrow> string option" where
  "player_label_line_pattern s =
    Option.bind (player_pattern s) (\<lambda>(n, r).
    Option.bind (lit '':'' r) (at_end n))"

definition face_up_card_line_pattern :: "string \<Rightarrow> (string \<times> string) option" where
  "face_up_card_line_pattern s =
    Option.bind (lit ''- '' s) (\<lambda>r.
    Option.bind (card_pattern r) (\<lambda>(c, r1). at_end c r1))"

definition face_down_card_line_pattern :: "string \<Rightarrow> (string \<times> string) option" where
  "face_down_card_line_pattern s =
    Option.bind (lit ''- '' s) (\<lambda>r.
    Option.bind (card_pattern r) (\<lambda>(c, r1).
    Option.bind (lit '' (face down)'' r1) (at_end c)))"

definition round_winner_pattern :: "string \<Rightarrow> (string \<times> string \<times> string) option" where
  "round_winner_pattern s =
    Option.bind (lit ''Round winner: '' s) (\<lambda>r.
    Option.bind (player_pattern r) (\<lambda>(n, r1).
    Option.bind (lit '' ('' r1) (\<lambda>r2.
    Option.bind (card_pattern r2) (\<lambda>(c, r3).
    Option.bind (lit '')'' r3) (at_end (n, c))))))"

definition commencing_war_pattern :: "string \<Rightarrow> unit option" where
  "commencing_war_pattern s = Option.bind (lit ''Commencing war...'' s) (at_end ())"

definition war_round_line_pattern :: "string \<Rightarrow> (string \<times> string) option" where
  "war_round_line_pattern s =
    Option.bind (round_pattern s) (\<lambda>(n, r).
    Option.bind (lit '', War '' r) (\<lambda>r1.
    Option.bind (plus_of is_digit r1) (\<lambda>(w, r2). at_end (n, w) r2)))"

definition continuing_war_pattern :: "string \<Rightarrow> unit option" where
  "continuing_war_pattern s = Option.bind (lit ''Continuing war...'' s) (at_end ())"

definition game_winner_line_pattern :: "string \<Rightarrow> (string \<times> string) option" where
  "game_winner_line_pattern s =
    Option.bind (player_pattern s) (\<lambda>(n, r).
    Option.bind (lit '' wins with '' r) (\<lambda>r1.
    Option.bind (plus_of is_digit r1) (\<lambda>(k, r2).
    Option.bind (lit '' cards in their deck'' r2) (at_end (n, k)))))"

definition draw_line_pattern :: "string \<Rightarrow> unit option" where
  "draw_line_pattern s = Option.bind (lit ''The game ended in a draw'' s) (at_end ())"

subsection \<open>The record built from the captured groups\<close>

record LineParser =
  valid_player_numbers :: "int list"
  max_cards :: int

definition default_LineParser :: LineParser where
  "default_LineParser = \<lparr> valid_player_numbers = [1, 2], max_cards = 52 \<rparr>"

text \<open>
  What each branch of \<^verbatim>\<open>parse_line\<close> does with the groups of its match: the record
  it returns, or \<open>None\<close> where the branch ends without returning.
\<close>

definition round_line_of :: "string \<Rightarrow> Line option" where
  "round_line_of n = map_option RoundLine (py_int n)"

definition player_label_line_of :: "LineParser \<Rightarrow> string \<Rightarrow> Line option" where
  "player_label_line_of self n =
    (case py_int n of
       None \<Rightarrow> None
     | Some k \<Rightarrow> if k \<in> set (valid_player_numbers self) then Some (PlayerLabelLine k) else None)"

definition card_line_of :: "(Rank \<Rightarrow> Suit \<Rightarrow> Line) \<Rightarrow> string \<times> string \<Rightarrow> Line option" where
  "card_line_of mk m =
    (case (rank_from_str (fst m), suit_from_str (snd m)) of
       (Some r, Some x) \<Rightarrow> Some (mk r x)
     | _ \<Rightarrow> None)"

definition round_winner_line_of :: "LineParser \<Rightarrow> string \<times> string \<times> string \<Rightarrow> Line option"
  where
  "round_winner_line_of self m =
    (case py_int (fst m) of
       None \<Rightarrow> None
     | Some k \<Rightarrow>
        (case (rank_from_str (fst (snd m)), suit_from_str (snd (snd m))) of
           (Some r, Some x) \<Rightarrow>
             if k \<in> set (valid_player_numbers self) then Some (RoundWinnerLine k r x) else None
         | _ \<Rightarrow> None))"

definition war_round_line_of :: "string \<times> string \<Rightarrow> Line option" where
  "war_round_line_of m =
    (case (py_int (fst m), py_int (snd m)) of
       (Some n, Some w) \<Rightarrow> Some (WarRoundLine n w)
     | _ \<Rightarrow> None)"

definition game_winner_line_of :: "LineParser \<Rightarrow> string \<times> string \<Rightarrow> Line option" where
  "game_winner_line_of self m =
    (case (py_int (fst m), py_int (snd m)) of
       (Some k, Some n) \<Rightarrow>
         if k \<in> set (valid_player_numbers self) \<and> 0 \<le> n \<and> n \<le> max_cards self
         then Some (GameWinnerLine k n) else None
     | _ \<Rightarrow> None)"

text \<open>
  \<^verbatim>\<open>parse_line\<close>. The branches are one \<^verbatim>\<open>if\<close>/\<^verbatim>\<open>elif\<close> chain on the
  patterns: the first pattern that matches selects the branch, and a branch that does not
  return leaves the chain for the final \<^verbatim>\<open>return MalformedLine(line)\<close>, where
  \<^verbatim>\<open>line\<close> is by then the stripped text.
\<close>

definition or_malformed :: "string \<Rightarrow> Line option \<Rightarrow> Line" where
  "or_malformed line r = (case r of Some l \<Rightarrow> l | None \<Rightarrow> MalformedLine line)"

definition parse_line :: "LineParser \<Rightarrow> string \<Rightarrow> Line" where
  "parse_line self line0 =
    (if CHR 0x0A \<in> set line0 then MalformedLine line0
     else
       let line = strip line0 in
       if line = [] then EmptyLine
       else case round_line_pattern line of
         Some m \<Rightarrow> or_malformed line (round_line_of m)
       | None \<Rightarrow>
      (case player_label_line_pattern line of
         Some m \<Rightarrow> or_malformed line (player_label_line_of self m)
       | None \<Rightarrow>
      (case face_up_card_line_pattern line of
         Some m \<Rightarrow> or_malformed line (card_line_of FaceUpCardLine m)
       | None \<Rightarrow>
      (case face_down_card_line_pattern line of
         Some m \<Rightarrow> or_malformed line (card_line_of FaceDownCardLine m)
       | None \<Rightarrow>
      (case round_winner_pattern line of
         Some m \<Rightarrow> or_malformed line (round_winner_line_of self m)
       | None \<Rightarrow>
      (case commencing_war_pattern line of
         Some m \<Rightarrow> CommencingWarLine
       | None \<Rightarrow>
      (case war_round_line_pattern line of
         Some m \<Rightarrow> or_malformed line (war_round_line_of m)
       | None \<Rightarrow>
      (case continuing_war_pattern line of
         Some m \<Rightarrow> ContinuingWarLine
       | None \<Rightarrow>
      (case game_winner_line_pattern line of
         Some m \<Rightarrow> or_malformed line (game_winner_line_of self m)
       | None \<Rightarrow>
      (case draw_line_pattern line of
         Some m \<Rightarrow> DrawLine
       | None \<Rightarrow> MalformedLine line))))))))))"

subsection \<open>The classifier as the specification words it\<close>





section \<open>The transcript validator (WarOutputValidator)\<close>

record ValidationResult =
  line_number :: int
  state :: ParseState
  error :: "ValidationError option"

text \<open>
  The private attribute \<^verbatim>\<open>_x\<close> of the validator is the field \<open>v_x\<close>.
  \<open>v_parse_manager\<close> is the state machine object, whose only attribute is its state.
  \<^verbatim>\<open>_encountered_game_done_line\<close> is \<^verbatim>\<open>None\<close> or \<^verbatim>\<open>True\<close> and is only
  tested for truth, so it is a \<open>bool\<close>.
\<close>

record WarOutputValidator =
  v_parser :: LineParser
  v_parse_manager :: ParseState
  v_card_validator :: CardConsistencyValidator
  v_card_comparer :: CardComparer
  v_round_number :: int
  v_line_number :: int
  v_war_round_number :: int
  v_war_state :: WarState
  v_game_end_state :: "GameEndState option"
  v_encountered_game_done_line :: bool

definition default_WarOutputValidator :: WarOutputValidator where
  "default_WarOutputValidator =
    \<lparr> v_parser = default_LineParser,
      v_parse_manager = REGULAR_ROUND,
      v_card_validator = default_CardConsistencyValidator,
      v_card_comparer = default_CardComparer,
      v_round_number = 1,
      v_line_number = 1,
      v_war_round_number = 0,
      v_war_state = NO_WAR,
      v_game_end_state = None,
      v_encountered_game_done_line = False \<rparr>"

definition get_players_left_after_n_draws :: "int \<Rightarrow> WarOutputValidator \<Rightarrow> PlayerId list" where
  "get_players_left_after_n_draws n self =
    map fst (filter (\<lambda>(player_id, count). count > n)
                    (get_player_cards_left (v_card_validator self)))"

text \<open>
  \<^verbatim>\<open>_update_game_end_state_after_n_draws\<close>, with the indentation of the source: the
  test for player 2 stands inside the branch taken when the player left is player 1.
\<close>

definition update_game_end_state_after_n_draws ::
  "int \<Rightarrow> WarOutputValidator \<Rightarrow> WarOutputValidator" where
  "update_game_end_state_after_n_draws n self =
    (let players_left = get_players_left_after_n_draws n self in
     if length players_left = 0 then self\<lparr> v_game_end_state := Some GAME_DRAW \<rparr>
     else if length players_left = 1 then
       (if hd players_left = 1 then
          (let self1 = self\<lparr> v_game_end_state := Some PLAYER_1_WIN \<rparr> in
           if hd players_left = 2 then self1\<lparr> v_game_end_state := Some PLAYER_2_WIN \<rparr>
           else self1)
        else self)
     else self)"

definition get_player_to_play :: "WarOutputValidator \<Rightarrow> PlayerId option" where
  "get_player_to_play self =
    (if v_parse_manager self \<in> {REGULAR_PLAYER_1_CARD, WAR_PLAYER_1_CARD_UP, WAR_PLAYER_1_CARD_DOWN}
       then Some 1
     else if v_parse_manager self
         \<in> {REGULAR_PLAYER_2_CARD, WAR_PLAYER_2_CARD_UP, WAR_PLAYER_2_CARD_DOWN}
       then Some 2
     else None)"

text \<open>
  The inner \<^verbatim>\<open>match (self._war_state, line)\<close> of the card branch: the comparison
  happens on a face-up card outside a war and on a face-down card during one; an error
  of \<^verbatim>\<open>determine_winners\<close> is ignored there.
\<close>

definition after_card_played :: "Line \<Rightarrow> WarOutputValidator \<Rightarrow> WarOutputValidator" where
  "after_card_played line self =
    (if (v_war_state self = NO_WAR \<and> is_FaceUpCardLine line)
        \<or> (v_war_state self = WAR_ONGOING \<and> is_FaceDownCardLine line) then
       (case determine_winners (v_card_comparer self) of
          Inl e \<Rightarrow> self
        | Inr result \<Rightarrow>
            if length result > 1 then
              (if v_war_state self = NO_WAR then self\<lparr> v_war_state := WAR_START \<rparr>
               else self\<lparr> v_war_state := WAR_ONGOING \<rparr>)
            else
              (if v_war_state self = WAR_ONGOING then self\<lparr> v_war_state := WAR_END \<rparr>
               else self\<lparr> v_war_state := NO_WAR \<rparr>))
     else self)"

definition card_line ::
  "Line \<Rightarrow> Card \<Rightarrow> WarOutputValidator
    \<Rightarrow> (ValidationError option \<times> WarOutputValidator) outcome" where
  "card_line line c self =
    (case get_player_to_play self of
       None \<Rightarrow> Returns (Some (NoCardCanBePlayed c), self)
     | Some current_player \<Rightarrow>
        (case card_played_by c current_player (v_card_validator self) of
           Raises x \<Rightarrow> Raises x
         | Returns (Some e, cv) \<Rightarrow> Returns (Some e, self\<lparr> v_card_validator := cv \<rparr>)
         | Returns (None, cv) \<Rightarrow>
            (let self1 = self\<lparr> v_card_validator := cv \<rparr> in
             if is_FaceUpCardLine line then
               (case face_up_card_played_by c current_player (v_card_comparer self1) of
                  (Some e, cc) \<Rightarrow> Returns (Some e, self1\<lparr> v_card_comparer := cc \<rparr>)
                | (None, cc) \<Rightarrow>
                    Returns (None, after_card_played line (self1\<lparr> v_card_comparer := cc \<rparr>)))
             else Returns (None, after_card_played line self1))))"

definition round_winner_line ::
  "int \<Rightarrow> Rank \<Rightarrow> Suit \<Rightarrow> WarOutputValidator
    \<Rightarrow> (ValidationError option \<times> WarOutputValidator) outcome" where
  "round_winner_line player_no r x self0 =
    (let self = self0\<lparr> v_round_number := v_round_number self0 + 1 \<rparr> in
     case determine_winners (v_card_comparer self) of
       Inl e \<Rightarrow> Returns (Some e, self)
     | Inr result \<Rightarrow>
        if length result > 1 then Returns (Some (MultipleWinners result player_no), self)
        else
          (case result of
             [] \<Rightarrow> Raises IndexError
           | winning_player # _ \<Rightarrow>
              if winning_player \<noteq> player_no
                then Returns (Some (WrongWinner winning_player player_no), self)
              else
                (let correct_card =
                       get_current_face_up_card winning_player (v_card_comparer self);
                     c = Card r x in
                 if Some c \<noteq> correct_card
                   then Returns (Some (WrongWinningCard winning_player correct_card c), self)
                 else
                   (case cards_in_play_taken_by player_no (v_card_validator self) of
                      Raises e \<Rightarrow> Raises e
                    | Returns (Some e, cv) \<Rightarrow> Returns (Some e, self\<lparr> v_card_validator := cv \<rparr>)
                    | Returns (None, cv) \<Rightarrow>
                        Returns (None,
                          self\<lparr> v_card_validator := cv,
                                v_card_comparer := reset_played_cards (v_card_comparer self),
                                v_war_state := NO_WAR \<rparr>)))))"

definition war_line ::
  "Line \<Rightarrow> WarOutputValidator \<Rightarrow> (ValidationError option \<times> WarOutputValidator) outcome" where
  "war_line line self =
    (case determine_winners (v_card_comparer self) of
       Inl e \<Rightarrow> Returns (Some e, self)
     | Inr result \<Rightarrow>
        if length result = 1
          then Returns (Some (SingleWinner result (is_CommencingWarLine line)), self)
        else
          Returns (None,
            self\<lparr> v_war_round_number :=
                    (if is_CommencingWarLine line then 1 else v_war_round_number self + 1),
                  v_war_state := WAR_ONGOING,
                  v_card_comparer := reset_played_cards (v_card_comparer self) \<rparr>))"

text \<open>
  The \<^verbatim>\<open>match line\<close> statement of \<^verbatim>\<open>_validate_line\<close>: the semantic check of
  one record. The result \<open>(Some e, _)\<close> is a \<^verbatim>\<open>return ValidationError(...)\<close>;
  \<open>(None, _)\<close> leaves the statement for the state machine update.
\<close>

fun check_line ::
  "Line \<Rightarrow> WarOutputValidator \<Rightarrow> (ValidationError option \<times> WarOutputValidator) outcome" where
  "check_line (RoundLine n) self =
    (if v_round_number self \<noteq> n then Returns (Some (WrongRoundNumber (v_round_number self) n), self)
     else Returns (None, update_game_end_state_after_n_draws 0 self))"
| "check_line (WarRoundLine n w) self =
    (if v_round_number self \<noteq> n then Returns (Some (WrongRoundNumber (v_round_number self) n), self)
     else if v_war_round_number self \<noteq> w
       then Returns (Some (WrongWarRoundNumber (v_war_round_number self) w), self)
     else Returns (None, update_game_end_state_after_n_draws 2 self))"
| "check_line (FaceUpCardLine r x) self = card_line (FaceUpCardLine r x) (Card r x) self"
| "check_line (FaceDownCardLine r x) self = card_line (FaceDownCardLine r x) (Card r x) self"
| "check_line (RoundWinnerLine p r x) self = round_winner_line p r x self"
| "check_line CommencingWarLine self = war_line CommencingWarLine self"
| "check_line ContinuingWarLine self = war_line ContinuingWarLine self"
| "check_line (GameWinnerLine p n) self =
    Returns (None, self\<lparr> v_encountered_game_done_line := True \<rparr>)"
| "check_line DrawLine self = Returns (None, self\<lparr> v_encountered_game_done_line := True \<rparr>)"
| "check_line (MalformedLine line_str) self = Returns (Some (EncounteredMalformedLine line_str), self)"
| "check_line (PlayerLabelLine p) self = Returns (None, self)"
| "check_line EmptyLine self = Returns (None, self)"

definition validate_record ::
  "Line \<Rightarrow> WarOutputValidator \<Rightarrow> (ValidationError option \<times> WarOutputValidator) outcome" where
  "validate_record line self =
    (case check_line line self of
       Raises x \<Rightarrow> Raises x
     | Returns (Some e, self1) \<Rightarrow> Returns (Some e, self1)
     | Returns (None, self1) \<Rightarrow>
        (case update_state (v_parse_manager self1) line (v_war_state self1)
                (v_game_end_state self1) of
           (None, _) \<Rightarrow>
             Returns (Some (UnexpectedLine line (v_parse_manager self1) (v_war_state self1)
                        (v_game_end_state self1)
                        (get_player_cards_left (v_card_validator self1))), self1)
         | (Some _, nxt) \<Rightarrow> Returns (None, self1\<lparr> v_parse_manager := nxt \<rparr>)))"

definition validate_line ::
  "string \<Rightarrow> WarOutputValidator \<Rightarrow> (ValidationError option \<times> WarOutputValidator) outcome" where
  "validate_line line_str self = validate_record (parse_line (v_parser self) line_str) self"

text \<open>
  The loop of \<^verbatim>\<open>validate_lines\<close>: it stops at the first line that returns an error,
  with the line counter not yet advanced, and advances the counter after every other line.
\<close>

fun validate_loop ::
  "string list \<Rightarrow> WarOutputValidator \<Rightarrow> (ValidationError option \<times> WarOutputValidator) outcome"
  where
  "validate_loop [] self = Returns (None, self)"
| "validate_loop (line # rest) self =
    (case validate_line line self of
       Raises x \<Rightarrow> Raises x
     | Returns (Some e, self1) \<Rightarrow> Returns (Some e, self1)
     | Returns (None, self1) \<Rightarrow>
         validate_loop rest (self1\<lparr> v_line_number := v_line_number self1 + 1 \<rparr>))"

definition validate_lines :: "string list \<Rightarrow> WarOutputValidator \<Rightarrow> ValidationResult outcome"
  where
  "validate_lines lines self =
    (case validate_loop lines self of
       Raises x \<Rightarrow> Raises x
     | Returns (Some e, self1) \<Rightarrow>
         Returns \<lparr> line_number = v_line_number self1, state = v_parse_manager self1,
                   error = Some e \<rparr>
     | Returns (None, self1) \<Rightarrow>
         if \<not> v_encountered_game_done_line self1 then
           Returns \<lparr> line_number = v_line_number self1, state = v_parse_manager self1,
                     error = Some (GameDidNotEnd (v_parse_manager self1) (v_war_state self1)
                               (v_game_end_state self1)
                               (get_player_cards_left (v_card_validator self1))) \<rparr>
         else
           Returns \<lparr> line_number = v_line_number self1, state = v_parse_manager self1,
                     error = None \<rparr>)"

section \<open>The order of the cards of a war round\<close>

text \<open>
  C3 (as the claim states it, refuted). The claim places a player's face-down card line
  before that player's face-up card line. After the label of player 1 in a war round the
  machine rejects that order and accepts the opposite one.
\<close>

theorem war_order_counterexample:
  "feed WAR_PLAYER_1_LABEL
     [(PlayerLabelLine 1, WAR_ONGOING, None),
      (FaceDownCardLine ACE SPADES, WAR_ONGOING, None),
      (FaceUpCardLine KING HEARTS, WAR_ONGOING, None)] = None
   \<and> feed WAR_PLAYER_1_LABEL
     [(PlayerLabelLine 1, WAR_ONGOING, None),
      (FaceUpCardLine KING HEARTS, WAR_ONGOING, None),
      (FaceDownCardLine ACE SPADES, WAR_ONGOING, None)] = Some WAR_PLAYER_2_LABEL"
  by (simp add: next_state_def next_state_game_end_def next_state_game_ongoing_def)

text \<open>
  The war sub-pipeline state by state: what each of its six player states accepts of a
  record other than the empty line, and where it leads.
\<close>

lemma war_label_1:
  "\<not> is_EmptyLine l \<Longrightarrow> (next_state WAR_PLAYER_1_LABEL l w g = Some s
        \<longleftrightarrow> l = PlayerLabelLine 1 \<and> w = WAR_ONGOING \<and> g = None \<and> s = WAR_PLAYER_1_CARD_UP)"
  by (cases g; cases l) (auto simp: next_state_def next_state_game_end_def next_state_game_ongoing_def)

lemma war_up_1:
  "\<not> is_EmptyLine l \<Longrightarrow> (next_state WAR_PLAYER_1_CARD_UP l w g = Some s
        \<longleftrightarrow> is_FaceUpCardLine l \<and> w = WAR_ONGOING \<and> g = None \<and> s = WAR_PLAYER_1_CARD_DOWN)"
  by (cases g; cases l) (auto simp: next_state_def next_state_game_end_def next_state_game_ongoing_def)

lemma war_down_1:
  "\<not> is_EmptyLine l \<Longrightarrow> (next_state WAR_PLAYER_1_CARD_DOWN l w g = Some s
        \<longleftrightarrow> is_FaceDownCardLine l \<and> w = WAR_ONGOING \<and> g = None \<and> s = WAR_PLAYER_2_LABEL)"
  by (cases g; cases l) (auto simp: next_state_def next_state_game_end_def next_state_game_ongoing_def)

lemma war_label_2:
  "\<not> is_EmptyLine l \<Longrightarrow> (next_state WAR_PLAYER_2_LABEL l w g = Some s
        \<longleftrightarrow> l = PlayerLabelLine 2 \<and> w = WAR_ONGOING \<and> g = None \<and> s = WAR_PLAYER_2_CARD_UP)"
  by (cases g; cases l) (auto simp: next_state_def next_state_game_end_def next_state_game_ongoing_def)

lemma war_up_2:
  "\<not> is_EmptyLine l \<Longrightarrow> (next_state WAR_PLAYER_2_CARD_UP l w g = Some s
        \<longleftrightarrow> is_FaceUpCardLine l \<and> w = WAR_ONGOING \<and> g = None \<and> s = WAR_PLAYER_2_CARD_DOWN)"
  by (cases g; cases l) (auto simp: next_state_def next_state_game_end_def next_state_game_ongoing_def)

lemma war_down_2:
  "\<not> is_EmptyLine l \<Longrightarrow> (next_state WAR_PLAYER_2_CARD_DOWN l w g = Some s
        \<longleftrightarrow> is_FaceDownCardLine l \<and> g = None
            \<and> (w = WAR_ONGOING \<and> s = CONTINUING_WAR \<or> w = WAR_END \<and> s = ROUND_WINNER))"
  by (cases g; cases l) (auto simp: next_state_def next_state_game_end_def next_state_game_ongoing_def)

lemma feed_three:
  "feed st [(l1, w1, g1), (l2, w2, g2), (l3, w3, g3)] = Some t \<Longrightarrow>
     \<exists>s1 s2. next_state st l1 w1 g1 = Some s1 \<and> next_state s1 l2 w2 g2 = Some s2
        \<and> next_state s2 l3 w3 g3 = Some t"
  by (auto split: option.splits)

lemma war_sequence_1:
  assumes "\<not> is_EmptyLine l" "\<not> is_EmptyLine l2" "\<not> is_EmptyLine l3"
    and "feed WAR_PLAYER_1_LABEL [(l, w, g), (l2, w2, g2), (l3, w3, g3)] = Some t"
  shows "l = PlayerLabelLine 1 \<and> is_FaceUpCardLine l2 \<and> is_FaceDownCardLine l3
           \<and> t = WAR_PLAYER_2_LABEL"
proof -
  from feed_three[OF assms(4)] obtain s1 s2 where
    a: "next_state WAR_PLAYER_1_LABEL l w g = Some s1"
    and b: "next_state s1 l2 w2 g2 = Some s2" and c: "next_state s2 l3 w3 g3 = Some t"
    by blast
  from a have l: "l = PlayerLabelLine 1" and s1: "s1 = WAR_PLAYER_1_CARD_UP"
    by (simp_all add: war_label_1[OF assms(1)])
  from b have l2: "is_FaceUpCardLine l2" and s2: "s2 = WAR_PLAYER_1_CARD_DOWN"
    by (simp_all add: s1 war_up_1[OF assms(2)])
  from c have "is_FaceDownCardLine l3" "t = WAR_PLAYER_2_LABEL"
    by (simp_all add: s2 war_down_1[OF assms(3)])
  with l l2 show ?thesis by simp
qed

lemma war_sequence_2:
  assumes "\<not> is_EmptyLine l" "\<not> is_EmptyLine l2" "\<not> is_EmptyLine l3"
    and "feed WAR_PLAYER_2_LABEL [(l, w, g), (l2, w2, g2), (l3, w3, g3)] = Some t"
  shows "l = PlayerLabelLine 2 \<and> is_FaceUpCardLine l2 \<and> is_FaceDownCardLine l3
           \<and> t \<in> {CONTINUING_WAR, ROUND_WINNER}"
proof -
  from feed_three[OF assms(4)] obtain s1 s2 where
    a: "next_state WAR_PLAYER_2_LABEL l w g = Some s1"
    and b: "next_state s1 l2 w2 g2 = Some s2" and c: "next_state s2 l3 w3 g3 = Some t"
    by blast
  from a have l: "l = PlayerLabelLine 2" and s1: "s1 = WAR_PLAYER_2_CARD_UP"
    by (simp_all add: war_label_2[OF assms(1)])
  from b have l2: "is_FaceUpCardLine l2" and s2: "s2 = WAR_PLAYER_2_CARD_DOWN"
    by (simp_all add: s1 war_up_2[OF assms(2)])
  from c have "is_FaceDownCardLine l3" "t \<in> {CONTINUING_WAR, ROUND_WINNER}"
    by (auto simp add: s2 war_down_2[OF assms(3)])
  with l l2 show ?thesis by simp
qed

text \<open>
  C3 (amended). In the war sub-pipeline a player's label state accepts, of the non-empty
  records, only that player's label and leads to the player's face-up state; the face-up
  state accepts only a face-up card line and leads to the face-down state; the face-down
  state accepts only a face-down card line. So every accepted sequence of three non-empty
  records from a player's label state is the label, a face-up card line, a face-down card
  line: each player's face-up card line comes before that player's face-down card line.
\<close>

theorem war_face_up_before_face_down:
  "\<not> is_EmptyLine l \<Longrightarrow>
     (next_state WAR_PLAYER_1_LABEL l w g = Some s
        \<longleftrightarrow> l = PlayerLabelLine 1 \<and> w = WAR_ONGOING \<and> g = None \<and> s = WAR_PLAYER_1_CARD_UP)
   \<and> (next_state WAR_PLAYER_1_CARD_UP l w g = Some s
        \<longleftrightarrow> is_FaceUpCardLine l \<and> w = WAR_ONGOING \<and> g = None \<and> s = WAR_PLAYER_1_CARD_DOWN)
   \<and> (next_state WAR_PLAYER_1_CARD_DOWN l w g = Some s
        \<longleftrightarrow> is_FaceDownCardLine l \<and> w = WAR_ONGOING \<and> g = None \<and> s = WAR_PLAYER_2_LABEL)
   \<and> (next_state WAR_PLAYER_2_LABEL l w g = Some s
        \<longleftrightarrow> l = PlayerLabelLine 2 \<and> w = WAR_ONGOING \<and> g = None \<and> s = WAR_PLAYER_2_CARD_UP)
   \<and> (next_state WAR_PLAYER_2_CARD_UP l w g = Some s
        \<longleftrightarrow> is_FaceUpCardLine l \<and> w = WAR_ONGOING \<and> g = None \<and> s = WAR_PLAYER_2_CARD_DOWN)
   \<and> (next_state WAR_PLAYER_2_CARD_DOWN l w g = Some s
        \<longleftrightarrow> is_FaceDownCardLine l \<and> g = None
            \<and> (w = WAR_ONGOING \<and> s = CONTINUING_WAR \<or> w = WAR_END \<and> s = ROUND_WINNER))
   \<and> (\<forall>l2 l3 w2 w3 g2 g3 t. \<not> is_EmptyLine l2 \<longrightarrow> \<not> is_EmptyLine l3 \<longrightarrow>
         feed WAR_PLAYER_1_LABEL [(l, w, g), (l2, w2, g2), (l3, w3, g3)] = Some t \<longrightarrow>
           l = PlayerLabelLine 1 \<and> is_FaceUpCardLine l2 \<and> is_FaceDownCardLine l3
           \<and> t = WAR_PLAYER_2_LABEL)
   \<and> (\<forall>l2 l3 w2 w3 g2 g3 t. \<not> is_EmptyLine l2 \<longrightarrow> \<not> is_EmptyLine l3 \<longrightarrow>
         feed WAR_PLAYER_2_LABEL [(l, w, g), (l2, w2, g2), (l3, w3, g3)] = Some t \<longrightarrow>
           l = PlayerLabelLine 2 \<and> is_FaceUpCardLine l2 \<and> is_FaceDownCardLine l3
           \<and> t \<in> {CONTINUING_WAR, ROUND_WINNER})"
proof (intro conjI allI impI)
  assume ne: "\<not> is_EmptyLine l"
  show "next_state WAR_PLAYER_1_LABEL l w g = Some s
        \<longleftrightarrow> l = PlayerLabelLine 1 \<and> w = WAR_ONGOING \<and> g = None \<and> s = WAR_PLAYER_1_CARD_UP"
    using ne by (rule war_label_1)
  show "next_state WAR_PLAYER_1_CARD_UP l w g = Some s
        \<longleftrightarrow> is_FaceUpCardLine l \<and> w = WAR_ONGOING \<and> g = None \<and> s = WAR_PLAYER_1_CARD_DOWN"
    using ne by (rule war_up_1)
  show "next_state WAR_PLAYER_1_CARD_DOWN l w g = Some s
        \<longleftrightarrow> is_FaceDownCardLine l \<and> w = WAR_ONGOING \<and> g = None \<and> s = WAR_PLAYER_2_LABEL"
    using ne by (rule war_down_1)
  show "next_state WAR_PLAYER_2_LABEL l w g = Some s
        \<longleftrightarrow> l = PlayerLabelLine 2 \<and> w = WAR_ONGOING \<and> g = None \<and> s = WAR_PLAYER_2_CARD_UP"
    using ne by (rule war_label_2)
  show "next_state WAR_PLAYER_2_CARD_UP l w g = Some s
        \<longleftrightarrow> is_FaceUpCardLine l \<and> w = WAR_ONGOING \<and> g = None \<and> s = WAR_PLAYER_2_CARD_DOWN"
    using ne by (rule war_up_2)
  show "next_state WAR_PLAYER_2_CARD_DOWN l w g = Some s
        \<longleftrightarrow> is_FaceDownCardLine l \<and> g = None
            \<and> (w = WAR_ONGOING \<and> s = CONTINUING_WAR \<or> w = WAR_END \<and> s = ROUND_WINNER)"
    using ne by (rule war_down_2)
next
  fix l2 l3 w2 w3 g2 g3 t
  assume "\<not> is_EmptyLine l" "\<not> is_EmptyLine l2" "\<not> is_EmptyLine l3"
    "feed WAR_PLAYER_1_LABEL [(l, w, g), (l2, w2, g2), (l3, w3, g3)] = Some t"
  from war_sequence_1[OF this]
  show "l = PlayerLabelLine 1" "is_FaceUpCardLine l2" "is_FaceDownCardLine l3"
    "t = WAR_PLAYER_2_LABEL" by simp_all
next
  fix l2 l3 w2 w3 g2 g3 t
  assume "\<not> is_EmptyLine l" "\<not> is_EmptyLine l2" "\<not> is_EmptyLine l3"
    "feed WAR_PLAYER_2_LABEL [(l, w, g), (l2, w2, g2), (l3, w3, g3)] = Some t"
  from war_sequence_2[OF this]
  show "l = PlayerLabelLine 2" "is_FaceUpCardLine l2" "is_FaceDownCardLine l3"
    "t \<in> {CONTINUING_WAR, ROUND_WINNER}" by simp_all
qed

theorem war_face_up_before_face_down_witness:
  "\<not> is_EmptyLine (PlayerLabelLine 2)
   \<and> next_state WAR_PLAYER_2_LABEL (PlayerLabelLine 2) WAR_ONGOING None
       = Some WAR_PLAYER_2_CARD_UP
   \<and> next_state WAR_PLAYER_2_CARD_UP (PlayerLabelLine 2) WAR_ONGOING None = None
   \<and> \<not> is_EmptyLine (FaceUpCardLine KING HEARTS)
   \<and> \<not> is_EmptyLine (FaceDownCardLine ACE SPADES)
   \<and> next_state WAR_PLAYER_1_CARD_UP (FaceUpCardLine KING HEARTS) WAR_ONGOING None
       = Some WAR_PLAYER_1_CARD_DOWN
   \<and> next_state WAR_PLAYER_1_CARD_DOWN (FaceUpCardLine KING HEARTS) WAR_ONGOING None = None
   \<and> feed WAR_PLAYER_2_LABEL
       [(PlayerLabelLine 2, WAR_ONGOING, None),
        (FaceUpCardLine KING HEARTS, WAR_ONGOING, None),
        (FaceDownCardLine ACE SPADES, WAR_END, None)] = Some ROUND_WINNER
   \<and> feed WAR_PLAYER_2_LABEL
       [(PlayerLabelLine 2, WAR_ONGOING, None),
        (FaceDownCardLine ACE SPADES, WAR_ONGOING, None),
        (FaceUpCardLine KING HEARTS, WAR_ONGOING, None)] = None"
  using war_face_up_before_face_down
    [of "FaceUpCardLine KING HEARTS" WAR_ONGOING None WAR_PLAYER_1_CARD_DOWN]
    war_face_up_before_face_down
    [of "PlayerLabelLine 2" WAR_ONGOING None WAR_PLAYER_2_CARD_UP]
  by (simp add: next_state_def next_state_game_end_def next_state_game_ongoing_def)

section \<open>The winners of a trick\<close>

lemma determine_winners_two:
  "player_ids cc = [1, 2] \<Longrightarrow> determine_winners cc =
    (case played_cards cc 1 of
       None \<Rightarrow> Inl (NoFaceUpCard 1)
     | Some c1 \<Rightarrow>
        (case played_cards cc 2 of
           None \<Rightarrow> Inl (NoFaceUpCard 2)
         | Some c2 \<Rightarrow>
             Inr (if index_of rank_order (rank c2) < index_of rank_order (rank c1) then [1]
                  else if index_of rank_order (rank c2) = index_of rank_order (rank c1)
                    then [1, 2]
                  else [2])))"
  by (auto simp: determine_winners_def Let_def split: option.splits)

text \<open>
  C8. For the two-player comparer, \<^verbatim>\<open>determine_winners\<close> returns an error exactly
  when player 1 or player 2 has no face-up card. Otherwise it returns the players whose
  card has the greatest rank, in the order Ace, Two, ..., King (positions 0 to 12) and
  whatever the suits: one player when the ranks differ, both when they are equal.
\<close>

theorem determine_winners_two_players:
  "map (index_of rank_order)
       [ACE, TWO, THREE, FOUR, FIVE, SIX, SEVEN, EIGHT, NINE, TEN, JACK, QUEEN, KING] = [0..<13]
   \<and> ((\<exists>e. determine_winners \<lparr> player_ids = [1, 2], played_cards = pc \<rparr> = Inl e)
        \<longleftrightarrow> (\<exists>p \<in> {1, 2}. pc p = None))
   \<and> (\<forall>c1 c2. pc 1 = Some c1 \<longrightarrow> pc 2 = Some c2 \<longrightarrow>
        (\<exists>ws. determine_winners \<lparr> player_ids = [1, 2], played_cards = pc \<rparr> = Inr ws
           \<and> ws = (if index_of rank_order (rank c2) < index_of rank_order (rank c1) then [1]
                   else if index_of rank_order (rank c2) = index_of rank_order (rank c1)
                     then [1, 2]
                   else [2])
           \<and> set ws = {p \<in> {1, 2}. \<forall>q \<in> {1, 2}.
                index_of rank_order (rank (the (pc q)))
                  \<le> index_of rank_order (rank (the (pc p)))}))"
proof -
  have order: "map (index_of rank_order)
       [ACE, TWO, THREE, FOUR, FIVE, SIX, SEVEN, EIGHT, NINE, TEN, JACK, QUEEN, KING] = [0..<13]"
    by (simp add: rank_order_def upt_rec)
  have eq: "determine_winners \<lparr> player_ids = [1, 2], played_cards = pc \<rparr> =
    (case pc 1 of
       None \<Rightarrow> Inl (NoFaceUpCard 1)
     | Some c1 \<Rightarrow>
        (case pc 2 of
           None \<Rightarrow> Inl (NoFaceUpCard 2)
         | Some c2 \<Rightarrow>
             Inr (if index_of rank_order (rank c2) < index_of rank_order (rank c1) then [1]
                  else if index_of rank_order (rank c2) = index_of rank_order (rank c1)
                    then [1, 2]
                  else [2])))"
    by (simp add: determine_winners_two split: option.splits)
  have fails: "(\<exists>e. determine_winners \<lparr> player_ids = [1, 2], played_cards = pc \<rparr> = Inl e)
        \<longleftrightarrow> (\<exists>p \<in> {1, 2}. pc p = None)"
    unfolding eq by (auto split: option.splits)
  have wins: "\<exists>ws. determine_winners \<lparr> player_ids = [1, 2], played_cards = pc \<rparr> = Inr ws
           \<and> ws = (if index_of rank_order (rank c2) < index_of rank_order (rank c1) then [1]
                   else if index_of rank_order (rank c2) = index_of rank_order (rank c1)
                     then [1, 2]
                   else [2])
           \<and> set ws = {p \<in> {1, 2}. \<forall>q \<in> {1, 2}.
                index_of rank_order (rank (the (pc q)))
                  \<le> index_of rank_order (rank (the (pc p)))}"
    if "pc 1 = Some c1" "pc 2 = Some c2" for c1 c2
    unfolding eq using that by auto
  from order fails wins show ?thesis by blast
qed

theorem determine_winners_two_players_witness:
  "[1 \<mapsto> Card KING HEARTS, 2 \<mapsto> Card KING SPADES] (1::int) = Some (Card KING HEARTS)
   \<and> [1 \<mapsto> Card KING HEARTS, 2 \<mapsto> Card KING SPADES] (2::int) = Some (Card KING SPADES)
   \<and> determine_winners
       \<lparr> player_ids = [1, 2],
         played_cards = [1 \<mapsto> Card KING HEARTS, 2 \<mapsto> Card KING SPADES] \<rparr> = Inr [1, 2]
   \<and> determine_winners
       \<lparr> player_ids = [1, 2], played_cards = [1 \<mapsto> Card KING HEARTS] \<rparr> = Inl (NoFaceUpCard 2)"
  using determine_winners_two_players [of "[1 \<mapsto> Card KING HEARTS, 2 \<mapsto> Card KING SPADES]"]
  by (simp add: determine_winners_def)

section \<open>Facts about the tracker\<close>

lemma card_in_standard_cards: "c \<in> set standard_cards"
proof (cases c)
  case (Card r s)
  then show ?thesis
    by (cases r; cases s; simp add: standard_cards_def rank_order_def suit_order_def)
qed

lemma finite_card_set: "finite (S :: Card set)"
proof (rule finite_subset)
  show "S \<subseteq> set standard_cards" using card_in_standard_cards by blast
  show "finite (set standard_cards)" by simp
qed

lemma set_iteration_of: "set (iteration_of S) = S"
  by (auto simp: iteration_of_def card_in_standard_cards)

lemma dict_set_keys: "k \<in> set (map fst d) \<Longrightarrow> map fst (dict_set d k v) = map fst d"
  by (induction d) force+

lemma dict_set_sum:
  fixes d :: "('k \<times> int) list"
  shows "map_of d k = Some n \<Longrightarrow>
    sum_list (map snd (dict_set d k v)) = sum_list (map snd d) - n + v"
  by (induction d) (auto split: if_splits)

lemma map_of_dict_set_same: "map_of (dict_set d k v) k = Some v"
  by (induction d) auto

lemma map_of_dict_set_other: "k' \<noteq> k \<Longrightarrow> map_of (dict_set d k v) k' = map_of d k'"
  by (induction d) auto

lemma validate_cards_added_in_play:
  "set cs \<subseteq> cards_in_play self \<Longrightarrow> validate_cards_added_rules cs p self = None"
  by (induction cs) (auto simp: ensure_card_in_play_def)

lemma cards_in_play_taken_by_eq:
  "cards_in_play_taken_by p self =
    (case map_of (card_group_decks self) p of
       None \<Rightarrow> Raises KeyError
     | Some deck \<Rightarrow>
        (case map_of (actual_card_counts self) p of
           None \<Rightarrow> Raises KeyError
         | Some n \<Rightarrow>
            Returns (None,
              self\<lparr> card_group_decks :=
                       dict_set (card_group_decks self) p (deck @ [cards_in_play self]),
                     actual_card_counts :=
                       dict_set (actual_card_counts self) p (n + int (card (cards_in_play self))),
                     cards_in_play := {} \<rparr>)))"
  by (simp add: cards_in_play_taken_by_def cards_added_to_deck_bottom_def dict_get_def
      validate_cards_added_in_play set_iteration_of add_set_to_bottom_def
      split: option.splits)

lemma card_played_by_success:
  assumes "card_played_by c p self = Returns (None, self1)"
  shows "c \<notin> cards_in_play self \<and>
    (\<exists>n deck. map_of (actual_card_counts self) p = Some n \<and>
       map_of (card_group_decks self) p = Some deck \<and> can_draw deck c \<and>
       self1 = self\<lparr> owner := (owner self)(c := None),
                     cards_in_play := insert c (cards_in_play self),
                     actual_card_counts := dict_set (actual_card_counts self) p (n - 1),
                     card_group_decks :=
                       map (\<lambda>(q, deck). (q, remove_if_present c deck)) (card_group_decks self) \<rparr>)"
  using assms
  by (auto simp: card_played_by_def validate_played_card_rules_def ensure_card_in_deck_def
      ensure_card_not_in_play_def dict_get_def
      split: option.splits outcome.splits if_splits)

definition tracker_inv :: "CardConsistencyValidator \<Rightarrow> bool" where
  "tracker_inv self \<longleftrightarrow>
     map fst (card_group_decks self) = [1, 2] \<and>
     map fst (actual_card_counts self) = [1, 2] \<and>
     sum_list (map snd (actual_card_counts self)) + int (card (cards_in_play self)) = 52"

lemma map_fst_remove: "map fst (map (\<lambda>(q, deck). (q, f deck)) d) = map fst d"
  by (induction d) auto

lemma map_of_keys: "map_of d k = Some v \<Longrightarrow> k \<in> set (map fst d)"
  by (induction d) (auto split: if_splits)

lemma tracker_inv_default: "tracker_inv default_CardConsistencyValidator"
  by (simp add: tracker_inv_def default_CardConsistencyValidator_def
      new_CardConsistencyValidator_def)

lemma tracker_inv_step:
  assumes "tracker_inv self" "apply_op x self = Returns (None, self1)"
  shows "tracker_inv self1"
proof (cases x)
  case (PlayCard c p)
  with assms(2) have "card_played_by c p self = Returns (None, self1)" by simp
  from card_played_by_success[OF this] assms(1) show ?thesis
    by (auto simp: tracker_inv_def map_fst_remove dict_set_keys map_of_keys dict_set_sum
        finite_card_set)
next
  case (CollectTrick p)
  with assms(2) have "cards_in_play_taken_by p self = Returns (None, self1)" by simp
  with assms(1) show ?thesis
    by (auto simp: cards_in_play_taken_by_eq tracker_inv_def dict_set_keys map_of_keys
        dict_set_sum split: option.splits)
qed

lemma tracker_reachable_inv: "tracker_reachable self \<Longrightarrow> tracker_inv self"
  by (induction rule: tracker_reachable.induct) (auto intro: tracker_inv_default tracker_inv_step)

lemma keys_12: "map fst d = [1, 2::int] \<Longrightarrow> p \<in> {1, 2} \<Longrightarrow> \<exists>v. map_of d p = Some v"
  by (cases d; cases "tl d") auto

lemma run_ops_append:
  "run_ops (xs @ ys) self =
     (case run_ops xs self of None \<Rightarrow> None | Some self1 \<Rightarrow> run_ops ys self1)"
  by (induction xs arbitrary: self) (auto split: outcome.splits option.splits)

lemma run_ops_reachable:
  "tracker_reachable self \<Longrightarrow> run_ops xs self = Some self1 \<Longrightarrow> tracker_reachable self1"
proof (induction xs arbitrary: self)
  case Nil
  then show ?case by simp
next
  case (Cons x xs)
  from Cons.prems(2) obtain mid where m: "apply_op x self = Returns (None, mid)"
    and r: "run_ops xs mid = Some self1"
    by (auto split: outcome.splits option.splits)
  from Cons.prems(1) m have "tracker_reachable mid" by (rule tracker_reachable.step)
  then show ?case using r by (rule Cons.IH)
qed

lemma in_play_stays:
  "run_ops mid self = Some self1 \<Longrightarrow> c \<in> cards_in_play self
     \<Longrightarrow> \<forall>q. CollectTrick q \<notin> set mid \<Longrightarrow> c \<in> cards_in_play self1"
proof (induction mid arbitrary: self)
  case Nil
  then show ?case by simp
next
  case (Cons x xs)
  from Cons.prems(1) obtain nxt where m: "apply_op x self = Returns (None, nxt)"
    and r: "run_ops xs nxt = Some self1"
    by (auto split: outcome.splits option.splits)
  from Cons.prems(3) obtain d q where x: "x = PlayCard d q" by (cases x) auto
  with m have "card_played_by d q self = Returns (None, nxt)" by simp
  from card_played_by_success[OF this] Cons.prems(2) have "c \<in> cards_in_play nxt" by auto
  with r Cons.prems(3) show ?case by (intro Cons.IH) auto
qed

lemma in_play_not_playable:
  assumes "c \<in> cards_in_play self"
  shows "card_played_by c q self =
           (case map_of (card_group_decks self) q of
              None \<Rightarrow> (case ensure_card_not_duplicated c q self of
                          Some e \<Rightarrow> Returns (Some e, self) | None \<Rightarrow> Raises KeyError)
            | Some deck \<Rightarrow>
               Returns (Some (case ensure_card_not_duplicated c q self of
                                Some e \<Rightarrow> e
                              | None \<Rightarrow> if \<not> can_draw deck c then NotInTopmostGroup c q
                                         else AlreadyInPlay c), self))"
  using assms
  by (auto simp: card_played_by_def validate_played_card_rules_def ensure_card_in_deck_def
      ensure_card_not_in_play_def dict_get_def
      split: option.splits outcome.splits if_splits)

section \<open>Collecting a trick\<close>

text \<open>
  C4. In every tracker state reachable from the standard start, for either player,
  the not-in-play check of \<^verbatim>\<open>cards_in_play_taken_by\<close> finds nothing, in whatever
  order the cards in play are iterated, and the call returns no error (for no player at
  all does it return one): the cards in play become one new last group of that player's
  deck, the player's count grows by their number, and the set of cards in play is
  emptied.
\<close>

theorem collect_trick_never_fails:
  assumes "tracker_reachable self" and "p \<in> {1, 2}"
  shows "(\<forall>cs. set cs = cards_in_play self \<longrightarrow> validate_cards_added_rules cs p self = None)
       \<and> (\<forall>q e self1. cards_in_play_taken_by q self \<noteq> Returns (Some e, self1))
       \<and> (\<exists>deck n. map_of (card_group_decks self) p = Some deck
             \<and> map_of (actual_card_counts self) p = Some n
             \<and> cards_in_play_taken_by p self =
                 Returns (None,
                   self\<lparr> card_group_decks :=
                            dict_set (card_group_decks self) p (deck @ [cards_in_play self]),
                          actual_card_counts :=
                            dict_set (actual_card_counts self) p
                              (n + int (card (cards_in_play self))),
                          cards_in_play := {} \<rparr>))"
proof -
  from assms(1) have inv: "tracker_inv self" by (rule tracker_reachable_inv)
  from inv have "map fst (card_group_decks self) = [1, 2]" by (simp add: tracker_inv_def)
  from keys_12[OF this assms(2)] obtain deck
    where d: "map_of (card_group_decks self) p = Some deck" ..
  from inv have "map fst (actual_card_counts self) = [1, 2]" by (simp add: tracker_inv_def)
  from keys_12[OF this assms(2)] obtain n
    where n: "map_of (actual_card_counts self) p = Some n" ..
  have "\<forall>q e self1. cards_in_play_taken_by q self \<noteq> Returns (Some e, self1)"
    by (simp add: cards_in_play_taken_by_eq split: option.splits)
  then show ?thesis
    using d n by (simp add: cards_in_play_taken_by_eq validate_cards_added_in_play)
qed

text \<open>A sample run, for the instances below: each player plays one card.\<close>

definition sample_ops :: "tracker_op list" where
  "sample_ops = [PlayCard (Card ACE SPADES) 1, PlayCard (Card KING SPADES) 2]"

definition after_sample_ops :: CardConsistencyValidator where
  "after_sample_ops =
    \<lparr> owner = Map.empty,
      cards_in_play = {Card KING SPADES, Card ACE SPADES},
      card_group_decks =
        [(1, [set standard_cards - {Card ACE SPADES, Card KING SPADES}]),
         (2, [set standard_cards - {Card ACE SPADES, Card KING SPADES}])],
      actual_card_counts = [(1, 25), (2, 25)] \<rparr>"

lemma sample_ops_run:
  "run_ops sample_ops default_CardConsistencyValidator = Some after_sample_ops"
  by (simp add: sample_ops_def after_sample_ops_def default_CardConsistencyValidator_def
      new_CardConsistencyValidator_def new_CardGroupDeck_def standard_cards_def
      rank_order_def suit_order_def card_played_by_def validate_played_card_rules_def
      ensure_card_in_deck_def ensure_card_not_in_play_def ensure_card_not_duplicated_def
      dict_get_def can_draw_def insert_Diff_if)

lemma after_sample_ops_reachable: "tracker_reachable after_sample_ops"
  using run_ops_reachable[OF tracker_reachable.start sample_ops_run] .

theorem collect_trick_never_fails_witness:
  "tracker_reachable after_sample_ops \<and> (2::int) \<in> {1, 2}
   \<and> (\<exists>self1. cards_in_play_taken_by 2 after_sample_ops = Returns (None, self1)
        \<and> cards_in_play self1 = {}
        \<and> actual_card_counts self1 = [(1, 25), (2, 27)]
        \<and> map_of (card_group_decks self1) 2 =
            Some [set standard_cards - {Card ACE SPADES, Card KING SPADES},
                  {Card KING SPADES, Card ACE SPADES}])"
  using collect_trick_never_fails [OF after_sample_ops_reachable, of 2]
    after_sample_ops_reachable
  by (auto simp: after_sample_ops_def)

section \<open>The deck invariant\<close>

text \<open>
  C5. In every tracker state reachable from the standard start by successful
  \<^verbatim>\<open>card_played_by\<close> and \<^verbatim>\<open>cards_in_play_taken_by\<close> calls, the counts of
  \<^verbatim>\<open>get_player_cards_left\<close> and the number of cards in play add up to 52.
\<close>

theorem deck_invariant:
  "tracker_reachable self \<Longrightarrow>
     sum_list (map snd (get_player_cards_left self)) + int (card (cards_in_play self)) = 52"
  using tracker_reachable_inv[of self] by (simp add: tracker_inv_def get_player_cards_left_def)

theorem deck_invariant_witness:
  "tracker_reachable after_sample_ops
   \<and> sum_list (map snd (get_player_cards_left after_sample_ops))
       + int (card (cards_in_play after_sample_ops)) = 52
   \<and> get_player_cards_left after_sample_ops = [(1, 25), (2, 25)]"
  using deck_invariant [OF after_sample_ops_reachable] after_sample_ops_reachable
  by (simp add: after_sample_ops_def get_player_cards_left_def)

section \<open>No card is played twice before a trick is collected\<close>

text \<open>
  C6. In a run of successful tracker operations from the standard start, once
  \<^verbatim>\<open>card_played_by\<close> has succeeded for a card, and as long as no
  \<^verbatim>\<open>cards_in_play_taken_by\<close> has followed, no \<^verbatim>\<open>card_played_by\<close> of the
  same card succeeds, for any player: for player 1 and player 2 it returns an error and
  leaves the tracker unchanged, and the run extended by that play is not a successful run.
\<close>

theorem no_replay_before_collect:
  assumes "run_ops (pre @ PlayCard c p # mid) default_CardConsistencyValidator = Some self"
    and "\<forall>q. CollectTrick q \<notin> set mid"
  shows "(\<forall>q self1. card_played_by c q self \<noteq> Returns (None, self1))
       \<and> (\<forall>q \<in> {1, 2}. \<exists>e. card_played_by c q self = Returns (Some e, self))
       \<and> (\<forall>q. run_ops (pre @ PlayCard c p # mid @ [PlayCard c q])
                 default_CardConsistencyValidator = None)"
proof -
  from assms(1) obtain s0 s1 where
    pre: "run_ops pre default_CardConsistencyValidator = Some s0"
    and play: "card_played_by c p s0 = Returns (None, s1)"
    and mid: "run_ops mid s1 = Some self"
    by (auto simp: run_ops_append split: option.splits outcome.splits)
  from card_played_by_success[OF play] have "c \<in> cards_in_play s1" by auto
  then have inp: "c \<in> cards_in_play self" by (rule in_play_stays[OF mid _ assms(2)])
  have "tracker_reachable self"
    using run_ops_reachable[OF tracker_reachable.start assms(1)] .
  then have keys: "map fst (card_group_decks self) = [1, 2]"
    using tracker_reachable_inv by (simp add: tracker_inv_def)
  have a: "\<forall>q self1. card_played_by c q self \<noteq> Returns (None, self1)"
    by (auto simp: in_play_not_playable[OF inp] split: option.splits)
  have b: "\<forall>q \<in> {1, 2}. \<exists>e. card_played_by c q self = Returns (Some e, self)"
  proof
    fix q :: int assume "q \<in> {1, 2}"
    from keys_12[OF keys this] obtain deck
      where "map_of (card_group_decks self) q = Some deck" ..
    then show "\<exists>e. card_played_by c q self = Returns (Some e, self)"
      by (simp add: in_play_not_playable[OF inp])
  qed
  have c: "\<forall>q. run_ops (pre @ PlayCard c p # mid @ [PlayCard c q])
                 default_CardConsistencyValidator = None"
  proof
    fix q
    have "run_ops ((pre @ PlayCard c p # mid) @ [PlayCard c q])
            default_CardConsistencyValidator = None"
      unfolding run_ops_append[of "pre @ PlayCard c p # mid"] assms(1)
      using a by (auto split: outcome.splits option.splits)
    then show "run_ops (pre @ PlayCard c p # mid @ [PlayCard c q])
                 default_CardConsistencyValidator = None" by simp
  qed
  from a b c show ?thesis by blast
qed

theorem no_replay_before_collect_witness:
  "run_ops ([] @ PlayCard (Card ACE SPADES) 1 # [PlayCard (Card KING SPADES) 2])
     default_CardConsistencyValidator = Some after_sample_ops
   \<and> (\<forall>q. CollectTrick q \<notin> set [PlayCard (Card KING SPADES) 2])
   \<and> card_played_by (Card ACE SPADES) 2 after_sample_ops =
       Returns (Some (NotInTopmostGroup (Card ACE SPADES) 2), after_sample_ops)
   \<and> card_played_by (Card ACE SPADES) 3 after_sample_ops = Raises KeyError"
proof -
  have run: "run_ops ([] @ PlayCard (Card ACE SPADES) 1 # [PlayCard (Card KING SPADES) 2])
     default_CardConsistencyValidator = Some after_sample_ops"
    using sample_ops_run by (simp add: sample_ops_def)
  have none: "\<forall>q. CollectTrick q \<notin> set [PlayCard (Card KING SPADES) 2]" by simp
  have two: "card_played_by (Card ACE SPADES) 2 after_sample_ops =
       Returns (Some (NotInTopmostGroup (Card ACE SPADES) 2), after_sample_ops)"
    by (simp add: in_play_not_playable after_sample_ops_def ensure_card_not_duplicated_def
        can_draw_def)
  have three: "card_played_by (Card ACE SPADES) 3 after_sample_ops = Raises KeyError"
    by (simp add: in_play_not_playable after_sample_ops_def ensure_card_not_duplicated_def)
  from no_replay_before_collect [OF run none] run none two three show ?thesis by blast
qed

section \<open>Lines that match a rule and fail its secondary validation\<close>
























section \<open>Facts about the validator\<close>

text \<open>What a line's check leaves unchanged.\<close>

definition same_frame :: "WarOutputValidator \<Rightarrow> WarOutputValidator \<Rightarrow> bool" where
  "same_frame a b \<longleftrightarrow> v_parse_manager b = v_parse_manager a \<and> v_line_number b = v_line_number a
     \<and> v_parser b = v_parser a"

lemma update_game_end_frame: "same_frame self (update_game_end_state_after_n_draws n self)"
  by (simp add: update_game_end_state_after_n_draws_def same_frame_def Let_def)

lemma after_card_played_frame: "same_frame self (after_card_played l self)"
  by (simp add: after_card_played_def same_frame_def split: sum.splits)

lemma card_line_frame: "card_line l c self = Returns (e, self1) \<Longrightarrow> same_frame self self1"
  using after_card_played_frame
  by (auto simp: card_line_def same_frame_def Let_def
      split: option.splits outcome.splits prod.splits if_splits)

lemma round_winner_line_frame:
  "round_winner_line p r x self = Returns (e, self1) \<Longrightarrow> same_frame self self1"
  by (auto simp: round_winner_line_def same_frame_def Let_def
      split: option.splits outcome.splits prod.splits if_splits sum.splits list.splits)

lemma war_line_frame: "war_line l self = Returns (e, self1) \<Longrightarrow> same_frame self self1"
  by (auto simp: war_line_def same_frame_def split: sum.splits if_splits)

lemma check_line_frame: "check_line l self = Returns (e, self1) \<Longrightarrow> same_frame self self1"
  using update_game_end_frame[of self] card_line_frame round_winner_line_frame war_line_frame
  by (cases l) (auto simp: same_frame_def split: if_splits)

lemma validate_record_frame:
  "validate_record l self = Returns (e, self1) \<Longrightarrow>
     v_line_number self1 = v_line_number self \<and> v_parser self1 = v_parser self"
  by (auto simp: validate_record_def same_frame_def update_state_def
      split: outcome.splits option.splits prod.splits dest!: check_line_frame)

text \<open>No line returns the game-did-not-end error: only \<open>validate_lines\<close> makes it.\<close>

lemma card_played_by_error:
  "card_played_by c p cv = Returns (Some e, cv1) \<Longrightarrow> \<not> is_GameDidNotEnd e"
  by (auto simp: card_played_by_def validate_played_card_rules_def ensure_card_in_deck_def
      ensure_card_not_in_play_def ensure_card_not_duplicated_def dict_get_def
      split: option.splits outcome.splits if_splits)

lemma cards_in_play_taken_by_no_error:
  "cards_in_play_taken_by p cv \<noteq> Returns (Some e, cv1)"
  by (simp add: cards_in_play_taken_by_eq split: option.splits)

lemma determine_winners_loop_error:
  "determine_winners_loop pc ps ret best = Inl e \<Longrightarrow> \<not> is_GameDidNotEnd e"
  by (induction pc ps ret best rule: determine_winners_loop.induct)
     (auto simp: Let_def split: option.splits)

lemma determine_winners_error: "determine_winners cc = Inl e \<Longrightarrow> \<not> is_GameDidNotEnd e"
  by (simp add: determine_winners_def determine_winners_loop_error)

lemma card_line_error:
  "card_line l c self = Returns (Some e, self1) \<Longrightarrow> \<not> is_GameDidNotEnd e"
  by (auto simp: card_line_def Let_def face_up_card_played_by_def
      split: option.splits outcome.splits prod.splits if_splits dest: card_played_by_error)

lemma round_winner_line_error:
  "round_winner_line p r x self = Returns (Some e, self1) \<Longrightarrow> \<not> is_GameDidNotEnd e"
  by (auto simp: round_winner_line_def Let_def cards_in_play_taken_by_no_error
      split: option.splits outcome.splits prod.splits if_splits sum.splits list.splits
      dest: determine_winners_error)

lemma war_line_error:
  "war_line l self = Returns (Some e, self1) \<Longrightarrow> \<not> is_GameDidNotEnd e"
  by (auto simp: war_line_def split: sum.splits if_splits dest: determine_winners_error)

lemma check_line_error:
  "check_line l self = Returns (Some e, self1) \<Longrightarrow> \<not> is_GameDidNotEnd e"
  by (cases l)
     (auto split: if_splits dest: card_line_error round_winner_line_error war_line_error)

lemma validate_record_error:
  "validate_record l self = Returns (Some e, self1) \<Longrightarrow> \<not> is_GameDidNotEnd e"
  by (auto simp: validate_record_def update_state_def
      split: outcome.splits option.splits prod.splits dest: check_line_error)

lemma validate_loop_result:
  "validate_loop lines self = Returns (r, self1) \<Longrightarrow>
    (r = None \<longrightarrow> v_line_number self1 = v_line_number self + int (length lines)) \<and>
    (\<forall>e. r = Some e \<longrightarrow>
       \<not> is_GameDidNotEnd e \<and>
       (\<exists>pre l post s1. lines = pre @ l # post
          \<and> validate_loop pre self = Returns (None, s1)
          \<and> validate_line l s1 = Returns (Some e, self1)
          \<and> v_line_number self1 = v_line_number self + int (length pre)))"
proof (induction lines arbitrary: self)
  case Nil
  then show ?case by simp
next
  case (Cons x xs)
  show ?case
  proof (cases "validate_line x self")
    case (Raises ex)
    with Cons.prems show ?thesis by simp
  next
    case (Returns res)
    obtain e0 s0 where res: "res = (e0, s0)" by (cases res)
    have frame: "v_line_number s0 = v_line_number self"
      using Returns res validate_record_frame by (simp add: validate_line_def)
    show ?thesis
    proof (cases e0)
      case (Some e)
      with Cons.prems Returns res have r: "r = Some e" and s: "self1 = s0" by simp_all
      have a: "\<not> is_GameDidNotEnd e"
        using Returns res Some validate_record_error by (simp add: validate_line_def)
      have "x # xs = [] @ x # xs \<and> validate_loop [] self = Returns (None, self)
          \<and> validate_line x self = Returns (Some e, self1)
          \<and> v_line_number self1 = v_line_number self + int (length ([]::string list))"
        using Returns res Some s frame by simp
      then have "\<exists>pre l post s1. x # xs = pre @ l # post
          \<and> validate_loop pre self = Returns (None, s1)
          \<and> validate_line l s1 = Returns (Some e, self1)
          \<and> v_line_number self1 = v_line_number self + int (length pre)"
        by blast
      with a r show ?thesis by simp
    next
      case None
      let ?s = "s0\<lparr> v_line_number := v_line_number s0 + 1 \<rparr>"
      from Cons.prems Returns res None have rest: "validate_loop xs ?s = Returns (r, self1)"
        by simp
      note ih = Cons.IH[OF rest]
      have ln: "v_line_number ?s = v_line_number self + 1" using frame by simp
      have step: "validate_loop (x # pre) self = validate_loop pre ?s" for pre
        using Returns res None by simp
      show ?thesis
      proof (intro conjI allI impI)
        assume "r = None"
        with ih ln show "v_line_number self1 = v_line_number self + int (length (x # xs))"
          by simp
      next
        fix e assume "r = Some e"
        with ih show "\<not> is_GameDidNotEnd e" by simp
      next
        fix e assume re: "r = Some e"
        with ih obtain pre l post s1 where
          "xs = pre @ l # post" "validate_loop pre ?s = Returns (None, s1)"
          "validate_line l s1 = Returns (Some e, self1)"
          "v_line_number self1 = v_line_number ?s + int (length pre)"
          by blast
        then have "x # xs = (x # pre) @ l # post
          \<and> validate_loop (x # pre) self = Returns (None, s1)
          \<and> validate_line l s1 = Returns (Some e, self1)
          \<and> v_line_number self1 = v_line_number self + int (length (x # pre))"
          using step ln by simp
        then show "\<exists>pre l post s1. x # xs = pre @ l # post
          \<and> validate_loop pre self = Returns (None, s1)
          \<and> validate_line l s1 = Returns (Some e, self1)
          \<and> v_line_number self1 = v_line_number self + int (length pre)"
          by blast
      qed
    qed
  qed
qed

text \<open>
  The default validator never raises: its tracker stays a reachable tracker state and
  its comparer keeps the players 1 and 2, so every dictionary lookup finds its key and
  the list of winners is never empty.
\<close>

definition validator_wf :: "WarOutputValidator \<Rightarrow> bool" where
  "validator_wf self \<longleftrightarrow>
     tracker_reachable (v_card_validator self)
     \<and> player_ids (v_card_comparer self) = [1, 2]
     \<and> v_parser self = default_LineParser"

lemma validator_wf_default: "validator_wf default_WarOutputValidator"
  by (simp add: validator_wf_def default_WarOutputValidator_def default_CardComparer_def
      new_CardComparer_def tracker_reachable.start)

lemma card_played_by_unchanged:
  "card_played_by c p cv = Returns (Some e, cv1) \<Longrightarrow> cv1 = cv"
  by (auto simp: card_played_by_def split: option.splits outcome.splits)

lemma card_played_by_returns:
  assumes "tracker_reachable cv" "p \<in> {1, 2}"
  shows "\<exists>e cv1. card_played_by c p cv = Returns (e, cv1)"
proof -
  from assms(1) have inv: "tracker_inv cv" by (rule tracker_reachable_inv)
  from inv have "map fst (card_group_decks cv) = [1, 2]" by (simp add: tracker_inv_def)
  from keys_12[OF this assms(2)] obtain deck
    where d: "map_of (card_group_decks cv) p = Some deck" ..
  from inv have "map fst (actual_card_counts cv) = [1, 2]" by (simp add: tracker_inv_def)
  from keys_12[OF this assms(2)] obtain n
    where n: "map_of (actual_card_counts cv) p = Some n" ..
  show ?thesis
    using d n
    by (auto simp: card_played_by_def validate_played_card_rules_def ensure_card_in_deck_def
      dict_get_def split: option.splits)
qed

lemma cards_in_play_taken_by_returns:
  assumes "tracker_reachable cv" "p \<in> {1, 2}"
  shows "\<exists>cv1. cards_in_play_taken_by p cv = Returns (None, cv1)"
proof -
  from assms(1) have inv: "tracker_inv cv" by (rule tracker_reachable_inv)
  from inv have "map fst (card_group_decks cv) = [1, 2]" by (simp add: tracker_inv_def)
  from keys_12[OF this assms(2)] obtain deck
    where d: "map_of (card_group_decks cv) p = Some deck" ..
  from inv have "map fst (actual_card_counts cv) = [1, 2]" by (simp add: tracker_inv_def)
  from keys_12[OF this assms(2)] obtain n
    where n: "map_of (actual_card_counts cv) p = Some n" ..
  show ?thesis using d n by (simp add: cards_in_play_taken_by_eq)
qed

lemma get_player_to_play_range: "get_player_to_play self = Some p \<Longrightarrow> p \<in> {1, 2}"
  by (auto simp: get_player_to_play_def split: if_splits)

lemma after_card_played_fields:
  "v_card_validator (after_card_played l self) = v_card_validator self"
  "v_card_comparer (after_card_played l self) = v_card_comparer self"
  "v_parser (after_card_played l self) = v_parser self"
  "v_parse_manager (after_card_played l self) = v_parse_manager self"
  "v_game_end_state (after_card_played l self) = v_game_end_state self"
  by (simp_all add: after_card_played_def split: sum.splits)

lemma update_game_end_fields:
  "v_card_validator (update_game_end_state_after_n_draws n self) = v_card_validator self"
  "v_card_comparer (update_game_end_state_after_n_draws n self) = v_card_comparer self"
  "v_parser (update_game_end_state_after_n_draws n self) = v_parser self"
  "v_parse_manager (update_game_end_state_after_n_draws n self) = v_parse_manager self"
  by (simp_all add: update_game_end_state_after_n_draws_def Let_def)

lemma update_game_end_wf:
  "validator_wf (update_game_end_state_after_n_draws n self) = validator_wf self"
  by (simp add: update_game_end_fields validator_wf_def)

lemma card_line_wf:
  assumes "validator_wf self"
  shows "\<exists>e self1. card_line l c self = Returns (e, self1) \<and> validator_wf self1"
proof (cases "get_player_to_play self")
  case None
  with assms show ?thesis by (simp add: card_line_def)
next
  case (Some p)
  then have p: "p \<in> {1, 2}" by (rule get_player_to_play_range)
  from assms have tr: "tracker_reachable (v_card_validator self)"
    by (simp add: validator_wf_def)
  from card_played_by_returns[OF tr p] obtain e cv1
    where cp: "card_played_by c p (v_card_validator self) = Returns (e, cv1)" by blast
  show ?thesis
  proof (cases e)
    case (Some err)
    with cp have "cv1 = v_card_validator self" by (simp add: card_played_by_unchanged)
    with cp Some \<open>get_player_to_play self = Some p\<close> assms show ?thesis
      by (simp add: card_line_def validator_wf_def)
  next
    case None
    with cp have "apply_op (PlayCard c p) (v_card_validator self) = Returns (None, cv1)"
      by simp
    with tr have tr1: "tracker_reachable cv1" by (rule tracker_reachable.step)
    have wf1: "validator_wf (self\<lparr> v_card_validator := cv1 \<rparr>)"
      using assms tr1 by (simp add: validator_wf_def)
    show ?thesis
      using cp None \<open>get_player_to_play self = Some p\<close> wf1
      by (auto simp: card_line_def Let_def after_card_played_fields face_up_card_played_by_def
          validator_wf_def split: option.splits prod.splits)
  qed
qed

lemma round_winner_line_wf:
  assumes "validator_wf self"
  shows "\<exists>e self1. round_winner_line p r x self = Returns (e, self1) \<and> validator_wf self1"
proof -
  let ?s = "self\<lparr> v_round_number := v_round_number self + 1 \<rparr>"
  from assms have ids: "player_ids (v_card_comparer self) = [1, 2]"
    and tr: "tracker_reachable (v_card_validator self)"
    by (simp_all add: validator_wf_def)
  have wf: "validator_wf ?s" using assms by (simp add: validator_wf_def)
  show ?thesis
  proof (cases "determine_winners (v_card_comparer self)")
    case (Inl e)
    with wf show ?thesis by (auto simp: round_winner_line_def Let_def)
  next
    case (Inr result)
    then have res: "result = [1] \<or> result = [1, 2] \<or> result = [2]"
      by (auto simp: determine_winners_two[OF ids] split: option.splits if_splits)
    show ?thesis
    proof (cases "result = [p] \<and> Some (Card r x)
        = get_current_face_up_card p (v_card_comparer self)")
      case True
      with res have p: "p \<in> {1, 2}" by auto
      from cards_in_play_taken_by_returns[OF tr p] obtain cv1
        where ct: "cards_in_play_taken_by p (v_card_validator self) = Returns (None, cv1)"
        by blast
      then have "apply_op (CollectTrick p) (v_card_validator self) = Returns (None, cv1)"
        by simp
      with tr have "tracker_reachable cv1" by (rule tracker_reachable.step)
      with assms True Inr ct show ?thesis
        by (auto simp: round_winner_line_def Let_def validator_wf_def reset_played_cards_def)
    next
      case False
      with res Inr wf show ?thesis
        by (auto simp: round_winner_line_def Let_def)
    qed
  qed
qed

lemma war_line_wf:
  assumes "validator_wf self"
  shows "\<exists>e self1. war_line l self = Returns (e, self1) \<and> validator_wf self1"
  using assms
  by (auto simp: war_line_def validator_wf_def reset_played_cards_def split: sum.splits)

lemma check_line_wf:
  assumes "validator_wf self"
  shows "\<exists>e self1. check_line l self = Returns (e, self1) \<and> validator_wf self1"
  using assms card_line_wf[OF assms] round_winner_line_wf[OF assms] war_line_wf[OF assms]
  by (cases l) (auto simp: update_game_end_wf, auto simp: validator_wf_def)

lemma validate_record_wf:
  assumes "validator_wf self"
  shows "\<exists>e self1. validate_record l self = Returns (e, self1) \<and> validator_wf self1"
proof -
  from check_line_wf[OF assms] obtain e mid
    where c: "check_line l self = Returns (e, mid)" and wf: "validator_wf mid" by blast
  show ?thesis
    using c wf
    by (cases e)
       (auto simp: validate_record_def update_state_def validator_wf_def split: option.splits)
qed

lemma validate_loop_wf:
  "validator_wf self \<Longrightarrow>
     \<exists>e self1. validate_loop lines self = Returns (e, self1) \<and> validator_wf self1"
proof (induction lines arbitrary: self)
  case Nil
  then show ?case by simp
next
  case (Cons x xs)
  from validate_record_wf[OF Cons.prems, of "parse_line (v_parser self) x"] obtain e s1
    where v: "validate_line x self = Returns (e, s1)" and wf: "validator_wf s1"
    by (auto simp: validate_line_def)
  show ?case
  proof (cases e)
    case None
    from wf have "validator_wf (s1\<lparr> v_line_number := v_line_number s1 + 1 \<rparr>)"
      by (simp add: validator_wf_def)
    from Cons.IH[OF this] v None show ?thesis by simp
  next
    case (Some err)
    with v wf show ?thesis by simp
  qed
qed

lemma validate_lines_returns:
  "validator_wf self \<Longrightarrow> \<exists>r. validate_lines lines self = Returns r"
  using validate_loop_wf[of self lines]
  by (auto simp: validate_lines_def split: option.splits)

lemma default_validate_lines_returns:
  "\<exists>r. validate_lines lines default_WarOutputValidator = Returns r"
  using validator_wf_default by (rule validate_lines_returns)

section \<open>The reported line number\<close>

text \<open>
  C9. On a validator whose line counter is 1 (a fresh one), if \<^verbatim>\<open>validate_lines\<close>
  returns no error, or the game-did-not-end error, the reported line number is the number
  of input lines plus 1; with any other error it is the 1-based index of the first line
  whose validation fails, all lines before it having been validated without error.
  The default validator always returns a result (\<open>default_validate_lines_returns\<close>).
\<close>

theorem reported_line_number:
  assumes "validate_lines lines self = Returns r" and "v_line_number self = 1"
  shows "(error r = None \<or> (\<exists>e. error r = Some e \<and> is_GameDidNotEnd e)
            \<longrightarrow> line_number r = int (length lines) + 1)
       \<and> (\<forall>e. error r = Some e \<and> \<not> is_GameDidNotEnd e \<longrightarrow>
            (\<exists>pre l post s1 s2. lines = pre @ l # post
               \<and> validate_loop pre self = Returns (None, s1)
               \<and> validate_line l s1 = Returns (Some e, s2)
               \<and> line_number r = int (length pre) + 1))"
proof -
  from assms(1) obtain res s where loop: "validate_loop lines self = Returns (res, s)"
    by (auto simp: validate_lines_def split: outcome.splits)
  note facts = validate_loop_result[OF loop]
  show ?thesis
  proof (cases res)
    case None
    with facts have "v_line_number s = 1 + int (length lines)" using assms(2) by simp
    moreover from assms(1) loop None have "line_number r = v_line_number s"
      and "error r = None \<or> (\<exists>e. error r = Some e \<and> is_GameDidNotEnd e)"
      by (auto simp: validate_lines_def split: if_splits)
    ultimately show ?thesis by auto
  next
    case (Some e)
    with assms(1) loop have r: "error r = Some e" "line_number r = v_line_number s"
      by (auto simp: validate_lines_def)
    from facts Some obtain pre l post s1 where
      "\<not> is_GameDidNotEnd e" "lines = pre @ l # post"
      "validate_loop pre self = Returns (None, s1)"
      "validate_line l s1 = Returns (Some e, s)"
      "v_line_number s = v_line_number self + int (length pre)"
      by blast
    with r assms(2) show ?thesis by auto
  qed
qed

theorem reported_line_number_witness:
  "validate_lines [''Round 1'', ''Player 1:''] default_WarOutputValidator =
     Returns \<lparr> line_number = 3, state = REGULAR_PLAYER_1_CARD,
               error = Some (GameDidNotEnd REGULAR_PLAYER_1_CARD NO_WAR None
                               [(1, 26), (2, 26)]) \<rparr>
   \<and> v_line_number default_WarOutputValidator = 1
   \<and> validate_lines [''Round 1'', ''Player 2:''] default_WarOutputValidator =
     Returns \<lparr> line_number = 2, state = REGULAR_PLAYER_1_LABEL,
               error = Some (UnexpectedLine (PlayerLabelLine 2) REGULAR_PLAYER_1_LABEL NO_WAR
                               None [(1, 26), (2, 26)]) \<rparr>"
proof -
  have a: "validate_lines [''Round 1'', ''Player 1:''] default_WarOutputValidator =
     Returns \<lparr> line_number = 3, state = REGULAR_PLAYER_1_CARD,
               error = Some (GameDidNotEnd REGULAR_PLAYER_1_CARD NO_WAR None
                               [(1, 26), (2, 26)]) \<rparr>"
    by code_simp
  have b: "v_line_number default_WarOutputValidator = 1"
    by (simp add: default_WarOutputValidator_def)
  have c: "validate_lines [''Round 1'', ''Player 2:''] default_WarOutputValidator =
     Returns \<lparr> line_number = 2, state = REGULAR_PLAYER_1_LABEL,
               error = Some (UnexpectedLine (PlayerLabelLine 2) REGULAR_PLAYER_1_LABEL NO_WAR
                               None [(1, 26), (2, 26)]) \<rparr>"
    by code_simp
  from reported_line_number [OF a b] a b c show ?thesis by simp
qed

section \<open>The derived outcome and the state machine\<close>

lemmas next_state_defs = next_state_def next_state_game_end_def next_state_game_ongoing_def

lemma next_state_round_start:
  "next_state st l w g = Some nxt \<Longrightarrow> \<not> is_EmptyLine l
     \<Longrightarrow> nxt \<in> {REGULAR_ROUND, WAR_ROUND} \<Longrightarrow> g = None"
  by (cases g) (auto simp: next_state_defs split: if_splits)

lemma next_state_winner_1:
  "next_state st l w g = Some WINNER_PLAYER_1 \<Longrightarrow> \<not> is_EmptyLine l
     \<Longrightarrow> g = Some PLAYER_1_WIN
         \<and> (st = REGULAR_ROUND \<and> is_RoundLine l \<or> st = WAR_ROUND \<and> is_WarRoundLine l)"
  by (cases g) (auto simp: next_state_defs split: if_splits)

lemma next_state_winner_2:
  "next_state st l w g = Some WINNER_PLAYER_2 \<Longrightarrow> \<not> is_EmptyLine l
     \<Longrightarrow> g = Some PLAYER_2_WIN
         \<and> (st = REGULAR_ROUND \<and> is_RoundLine l \<or> st = WAR_ROUND \<and> is_WarRoundLine l)"
  by (cases g) (auto simp: next_state_defs split: if_splits)

lemma next_state_game_winner:
  "next_state st (GameWinnerLine p n) w g = Some nxt
     \<Longrightarrow> nxt = NO_MORE_LINES \<and> g \<noteq> None
         \<and> (st = WINNER_PLAYER_1 \<and> p = 1 \<or> st = WINNER_PLAYER_2 \<and> p = 2)"
  by (cases g) (auto simp: next_state_defs split: if_splits)

lemma players_left_update:
  "get_players_left_after_n_draws m (update_game_end_state_after_n_draws n self)
     = get_players_left_after_n_draws m self"
  by (simp add: get_players_left_after_n_draws_def update_game_end_fields)

lemma update_game_end_derives:
  assumes "v_game_end_state self = None"
  shows "v_game_end_state (update_game_end_state_after_n_draws n self) = Some PLAYER_1_WIN
           \<Longrightarrow> get_players_left_after_n_draws n self = [1]"
    and "v_game_end_state (update_game_end_state_after_n_draws n self) \<noteq> Some PLAYER_2_WIN"
  using assms
  by (auto simp: update_game_end_state_after_n_draws_def Let_def length_Suc_conv
      split: if_splits)

lemma update_game_end_player_2:
  "get_players_left_after_n_draws n self = [2]
     \<Longrightarrow> update_game_end_state_after_n_draws n self = self"
  by (simp add: update_game_end_state_after_n_draws_def)

definition outcome_inv :: "WarOutputValidator \<Rightarrow> bool" where
  "outcome_inv self \<longleftrightarrow>
     (v_parse_manager self \<in> {REGULAR_ROUND, WAR_ROUND} \<longrightarrow> v_game_end_state self = None)
     \<and> (v_parse_manager self = WINNER_PLAYER_1 \<longrightarrow>
          v_game_end_state self = Some PLAYER_1_WIN
          \<and> (\<exists>n \<in> {0, 2}. get_players_left_after_n_draws n self = [1]))
     \<and> (v_parse_manager self = WINNER_PLAYER_2 \<longrightarrow>
          v_game_end_state self = Some PLAYER_2_WIN
          \<and> (\<exists>n \<in> {0, 2}. get_players_left_after_n_draws n self = [2]))"

lemma outcome_inv_default: "outcome_inv default_WarOutputValidator"
  by (simp add: outcome_inv_def default_WarOutputValidator_def)

lemma validate_record_success:
  assumes "validate_record l self = Returns (None, self1)"
  obtains mid where "check_line l self = Returns (None, mid)"
    and "next_state (v_parse_manager self) l (v_war_state mid) (v_game_end_state mid)
           = Some (v_parse_manager self1)"
    and "self1 = mid\<lparr> v_parse_manager := v_parse_manager self1 \<rparr>"
proof -
  from assms obtain mid where c: "check_line l self = Returns (None, mid)"
    by (auto simp: validate_record_def split: outcome.splits option.splits prod.splits)
  from check_line_frame[OF c] have pm: "v_parse_manager mid = v_parse_manager self"
    by (simp add: same_frame_def)
  from assms c pm have
    "next_state (v_parse_manager self) l (v_war_state mid) (v_game_end_state mid)
           = Some (v_parse_manager self1)"
    "self1 = mid\<lparr> v_parse_manager := v_parse_manager self1 \<rparr>"
    by (auto simp: validate_record_def update_state_def split: option.splits)
  with c show ?thesis by (rule that)
qed

lemma check_line_round:
  "check_line l self = Returns (None, mid) \<Longrightarrow> is_RoundLine l
     \<Longrightarrow> mid = update_game_end_state_after_n_draws 0 self"
  by (cases l) (auto split: if_splits)

lemma check_line_war_round:
  "check_line l self = Returns (None, mid) \<Longrightarrow> is_WarRoundLine l
     \<Longrightarrow> mid = update_game_end_state_after_n_draws 2 self"
  by (cases l) (auto split: if_splits)

lemma outcome_inv_step:
  assumes inv: "outcome_inv self" and v: "validate_record l self = Returns (None, self1)"
  shows "outcome_inv self1"
proof (cases "is_EmptyLine l")
  case True
  then have "l = EmptyLine" by (cases l) auto
  with v have "self1 = self\<lparr> v_parse_manager := v_parse_manager self \<rparr>"
    by (auto simp: validate_record_def update_state_def next_state_def)
  with inv show ?thesis by (simp add: outcome_inv_def get_players_left_after_n_draws_def)
next
  case False
  from v obtain mid where c: "check_line l self = Returns (None, mid)"
    and ns: "next_state (v_parse_manager self) l (v_war_state mid) (v_game_end_state mid)
           = Some (v_parse_manager self1)"
    and s1: "self1 = mid\<lparr> v_parse_manager := v_parse_manager self1 \<rparr>"
    by (rule validate_record_success)
  have g1: "v_game_end_state self1 = v_game_end_state mid"
    by (subst s1) simp
  have cv1: "v_card_validator self1 = v_card_validator mid"
    by (subst s1) simp
  have pl: "get_players_left_after_n_draws n self1 = get_players_left_after_n_draws n mid" for n
    by (simp add: get_players_left_after_n_draws_def cv1)
  have a: "v_game_end_state self1 = None" if "v_parse_manager self1 \<in> {REGULAR_ROUND, WAR_ROUND}"
    using next_state_round_start[OF ns False that] g1 by simp
  have derived: "v_game_end_state self = None
      \<and> (\<exists>n \<in> {0, 2}. mid = update_game_end_state_after_n_draws n self)"
    if "v_parse_manager self = REGULAR_ROUND \<and> is_RoundLine l
        \<or> v_parse_manager self = WAR_ROUND \<and> is_WarRoundLine l"
    using that inv check_line_round[OF c] check_line_war_round[OF c]
    by (auto simp: outcome_inv_def)
  have b: "v_game_end_state self1 = Some PLAYER_1_WIN
          \<and> (\<exists>n \<in> {0, 2}. get_players_left_after_n_draws n self1 = [1])"
    if w: "v_parse_manager self1 = WINNER_PLAYER_1"
  proof -
    from ns w have ns': "next_state (v_parse_manager self) l (v_war_state mid)
        (v_game_end_state mid) = Some WINNER_PLAYER_1" by simp
    from next_state_winner_1[OF ns' False] have g: "v_game_end_state mid = Some PLAYER_1_WIN"
      and st: "v_parse_manager self = REGULAR_ROUND \<and> is_RoundLine l
        \<or> v_parse_manager self = WAR_ROUND \<and> is_WarRoundLine l" by simp_all
    from derived[OF st] obtain n where n: "n \<in> {0, 2}"
      and none: "v_game_end_state self = None"
      and mid: "mid = update_game_end_state_after_n_draws n self" by blast
    from update_game_end_derives(1)[OF none, of n] g mid
    have "get_players_left_after_n_draws n self = [1]" by simp
    then have "get_players_left_after_n_draws n self1 = [1]"
      by (simp add: pl mid players_left_update)
    with n g g1 show ?thesis by auto
  qed
  have c2: "v_parse_manager self1 \<noteq> WINNER_PLAYER_2"
  proof
    assume w: "v_parse_manager self1 = WINNER_PLAYER_2"
    from ns w have ns': "next_state (v_parse_manager self) l (v_war_state mid)
        (v_game_end_state mid) = Some WINNER_PLAYER_2" by simp
    from next_state_winner_2[OF ns' False] have g: "v_game_end_state mid = Some PLAYER_2_WIN"
      and st: "v_parse_manager self = REGULAR_ROUND \<and> is_RoundLine l
        \<or> v_parse_manager self = WAR_ROUND \<and> is_WarRoundLine l" by simp_all
    from derived[OF st] obtain n where none: "v_game_end_state self = None"
      and mid: "mid = update_game_end_state_after_n_draws n self" by blast
    from update_game_end_derives(2)[OF none, of n] g mid show False by simp
  qed
  from a b c2 show ?thesis by (simp add: outcome_inv_def)
qed

lemma validate_loop_split:
  "validate_loop (pre @ l # post) self = Returns (None, fin) \<Longrightarrow>
     \<exists>s1 s2. validate_loop pre self = Returns (None, s1)
        \<and> validate_line l s1 = Returns (None, s2)"
proof (induction pre arbitrary: self)
  case Nil
  then show ?case by (auto split: outcome.splits option.splits prod.splits)
next
  case (Cons x xs)
  from Cons.prems obtain s0 where v: "validate_line x self = Returns (None, s0)"
    and rest: "validate_loop (xs @ l # post) (s0\<lparr> v_line_number := v_line_number s0 + 1 \<rparr>)
        = Returns (None, fin)"
    by (auto split: outcome.splits option.splits prod.splits)
  from Cons.IH[OF rest] v show ?case by simp
qed

lemma validate_loop_inv:
  "validate_loop pre self = Returns (None, s1) \<Longrightarrow> validator_wf self \<Longrightarrow> outcome_inv self
     \<Longrightarrow> validator_wf s1 \<and> outcome_inv s1"
proof (induction pre arbitrary: self)
  case Nil
  then show ?case by simp
next
  case (Cons x xs)
  from Cons.prems(1) obtain s0 where v: "validate_line x self = Returns (None, s0)"
    and rest: "validate_loop xs (s0\<lparr> v_line_number := v_line_number s0 + 1 \<rparr>)
        = Returns (None, s1)"
    by (auto split: outcome.splits option.splits prod.splits)
  from v have vr: "validate_record (parse_line (v_parser self) x) self = Returns (None, s0)"
    by (simp add: validate_line_def)
  from validate_record_wf[OF Cons.prems(2), of "parse_line (v_parser self) x"] vr
  have wf0: "validator_wf s0" by simp
  from outcome_inv_step[OF Cons.prems(3) vr] have oi0: "outcome_inv s0" .
  from wf0 have wf: "validator_wf (s0\<lparr> v_line_number := v_line_number s0 + 1 \<rparr>)"
    by (simp add: validator_wf_def)
  from oi0 have oi: "outcome_inv (s0\<lparr> v_line_number := v_line_number s0 + 1 \<rparr>)"
    by (simp add: outcome_inv_def get_players_left_after_n_draws_def)
  from Cons.IH[OF rest wf oi] show ?case .
qed

section \<open>Two sample transcripts\<close>

text \<open>
  Two games that differ only in who wins the long war of round 1. Round 1 ties, and so do
  the war rounds 1 to 10; war round 11 is won by player 1 in \<open>game_1\<close> and by player 2
  in \<open>game_2\<close>, which leaves the loser with 3 cards and the winner with 49. Round 2
  ties again, and at the header of its first war round the loser has 2 cards left and the
  winner 48. \<open>game_1_end\<close> and \<open>game_2_end\<close> are the winner lines that follow.
\<close>

definition game_1 :: "string list" where
  "game_1 = [''Round 1'',
     ''Player 1:'',
     ''- Ace of Clubs'',
     ''Player 2:'',
     ''- Ace of Diamonds'',
     ''Commencing war...'',
     ''Round 1, War 1'',
     ''Player 1:'',
     ''- Two of Clubs'',
     ''- Ace of Hearts (face down)'',
     ''Player 2:'',
     ''- Two of Diamonds'',
     ''- Ace of Spades (face down)'',
     ''Continuing war...'',
     ''Round 1, War 2'',
     ''Player 1:'',
     ''- Three of Clubs'',
     ''- Two of Hearts (face down)'',
     ''Player 2:'',
     ''- Three of Diamonds'',
     ''- Two of Spades (face down)'',
     ''Continuing war...'',
     ''Round 1, War 3'',
     ''Player 1:'',
     ''- Four of Clubs'',
     ''- Three of Hearts (face down)'',
     ''Player 2:'',
     ''- Four of Diamonds'',
     ''- Three of Spades (face down)'',
     ''Continuing war...'',
     ''Round 1, War 4'',
     ''Player 1:'',
     ''- Five of Clubs'',
     ''- Four of Hearts (face down)'',
     ''Player 2:'',
     ''- Five of Diamonds'',
     ''- Four of Spades (face down)'',
     ''Continuing war...'',
     ''Round 1, War 5'',
     ''Player 1:'',
     ''- Six of Clubs'',
     ''- Five of Hearts (face down)'',
     ''Player 2:'',
     ''- Six of Diamonds'',
     ''- Five of Spades (face down)'',
     ''Continuing war...'',
     ''Round 1, War 6'',
     ''Player 1:'',
     ''- Seven of Clubs'',
     ''- Six of Hearts (face down)'',
     ''Player 2:'',
     ''- Seven of Diamonds'',
     ''- Six of Spades (face down)'',
     ''Continuing war...'',
     ''Round 1, War 7'',
     ''Player 1:'',
     ''- Eight of Clubs'',
     ''- Seven of Hearts (face down)'',
     ''Player 2:'',
     ''- Eight of Diamonds'',
     ''- Seven of Spades (face down)'',
     ''Continuing war...'',
     ''Round 1, War 8'',
     ''Player 1:'',
     ''- Nine of Clubs'',
     ''- Eight of Hearts (face down)'',
     ''Player 2:'',
     ''- Nine of Diamonds'',
     ''- Eight of Spades (face down)'',
     ''Continuing war...'',
     ''Round 1, War 9'',
     ''Player 1:'',
     ''- Ten of Clubs'',
     ''- Nine of Hearts (face down)'',
     ''Player 2:'',
     ''- Ten of Diamonds'',
     ''- Nine of Spades (face down)'',
     ''Continuing war...'',
     ''Round 1, War 10'',
     ''Player 1:'',
     ''- Jack of Clubs'',
     ''- Ten of Hearts (face down)'',
     ''Player 2:'',
     ''- Jack of Diamonds'',
     ''- Ten of Spades (face down)'',
     ''Continuing war...'',
     ''Round 1, War 11'',
     ''Player 1:'',
     ''- King of Clubs'',
     ''- Jack of Hearts (face down)'',
     ''Player 2:'',
     ''- Queen of Clubs'',
     ''- Jack of Spades (face down)'',
     ''Round winner: Player 1 (King of Clubs)'',
     ''Round 2'',
     ''Player 1:'',
     ''- Queen of Diamonds'',
     ''Player 2:'',
     ''- Queen of Hearts'',
     ''Commencing war...'',
     ''Round 2, War 1'']"

definition game_2 :: "string list" where
  "game_2 = [''Round 1'',
     ''Player 1:'',
     ''- Ace of Clubs'',
     ''Player 2:'',
     ''- Ace of Diamonds'',
     ''Commencing war...'',
     ''Round 1, War 1'',
     ''Player 1:'',
     ''- Two of Clubs'',
     ''- Ace of Hearts (face down)'',
     ''Player 2:'',
     ''- Two of Diamonds'',
     ''- Ace of Spades (face down)'',
     ''Continuing war...'',
     ''Round 1, War 2'',
     ''Player 1:'',
     ''- Three of Clubs'',
     ''- Two of Hearts (face down)'',
     ''Player 2:'',
     ''- Three of Diamonds'',
     ''- Two of Spades (face down)'',
     ''Continuing war...'',
     ''Round 1, War 3'',
     ''Player 1:'',
     ''- Four of Clubs'',
     ''- Three of Hearts (face down)'',
     ''Player 2:'',
     ''- Four of Diamonds'',
     ''- Three of Spades (face down)'',
     ''Continuing war...'',
     ''Round 1, War 4'',
     ''Player 1:'',
     ''- Five of Clubs'',
     ''- Four of Hearts (face down)'',
     ''Player 2:'',
     ''- Five of Diamonds'',
     ''- Four of Spades (face down)'',
     ''Continuing war...'',
     ''Round 1, War 5'',
     ''Player 1:'',
     ''- Six of Clubs'',
     ''- Five of Hearts (face down)'',
     ''Player 2:'',
     ''- Six of Diamonds'',
     ''- Five of Spades (face down)'',
     ''Continuing war...'',
     ''Round 1, War 6'',
     ''Player 1:'',
     ''- Seven of Clubs'',
     ''- Six of Hearts (face down)'',
     ''Player 2:'',
     ''- Seven of Diamonds'',
     ''- Six of Spades (face down)'',
     ''Continuing war...'',
     ''Round 1, War 7'',
     ''Player 1:'',
     ''- Eight of Clubs'',
     ''- Seven of Hearts (face down)'',
     ''Player 2:'',
     ''- Eight of Diamonds'',
     ''- Seven of Spades (face down)'',
     ''Continuing war...'',
     ''Round 1, War 8'',
     ''Player 1:'',
     ''- Nine of Clubs'',
     ''- Eight of Hearts (face down)'',
     ''Player 2:'',
     ''- Nine of Diamonds'',
     ''- Eight of Spades (face down)'',
     ''Continuing war...'',
     ''Round 1, War 9'',
     ''Player 1:'',
     ''- Ten of Clubs'',
     ''- Nine of Hearts (face down)'',
     ''Player 2:'',
     ''- Ten of Diamonds'',
     ''- Nine of Spades (face down)'',
     ''Continuing war...'',
     ''Round 1, War 10'',
     ''Player 1:'',
     ''- Jack of Clubs'',
     ''- Ten of Hearts (face down)'',
     ''Player 2:'',
     ''- Jack of Diamonds'',
     ''- Ten of Spades (face down)'',
     ''Continuing war...'',
     ''Round 1, War 11'',
     ''Player 1:'',
     ''- Queen of Clubs'',
     ''- Jack of Hearts (face down)'',
     ''Player 2:'',
     ''- King of Clubs'',
     ''- Jack of Spades (face down)'',
     ''Round winner: Player 2 (King of Clubs)'',
     ''Round 2'',
     ''Player 1:'',
     ''- Queen of Diamonds'',
     ''Player 2:'',
     ''- Queen of Hearts'',
     ''Commencing war...'',
     ''Round 2, War 1'']"

text \<open>
  In \<open>game_3\<close> the war of round 1 lasts one round more and leaves player 2 one card,
  which player 1 takes in round 2: at the header of round 3, followed here by two blank
  lines, player 1 holds all 52 cards.
\<close>

definition game_3 :: "string list" where
  "game_3 = [''Round 1'',
     ''Player 1:'',
     ''- Ace of Clubs'',
     ''Player 2:'',
     ''- Ace of Diamonds'',
     ''Commencing war...'',
     ''Round 1, War 1'',
     ''Player 1:'',
     ''- Two of Clubs'',
     ''- Ace of Hearts (face down)'',
     ''Player 2:'',
     ''- Two of Diamonds'',
     ''- Ace of Spades (face down)'',
     ''Continuing war...'',
     ''Round 1, War 2'',
     ''Player 1:'',
     ''- Three of Clubs'',
     ''- Two of Hearts (face down)'',
     ''Player 2:'',
     ''- Three of Diamonds'',
     ''- Two of Spades (face down)'',
     ''Continuing war...'',
     ''Round 1, War 3'',
     ''Player 1:'',
     ''- Four of Clubs'',
     ''- Three of Hearts (face down)'',
     ''Player 2:'',
     ''- Four of Diamonds'',
     ''- Three of Spades (face down)'',
     ''Continuing war...'',
     ''Round 1, War 4'',
     ''Player 1:'',
     ''- Five of Clubs'',
     ''- Four of Hearts (face down)'',
     ''Player 2:'',
     ''- Five of Diamonds'',
     ''- Four of Spades (face down)'',
     ''Continuing war...'',
     ''Round 1, War 5'',
     ''Player 1:'',
     ''- Six of Clubs'',
     ''- Five of Hearts (face down)'',
     ''Player 2:'',
     ''- Six of Diamonds'',
     ''- Five of Spades (face down)'',
     ''Continuing war...'',
     ''Round 1, War 6'',
     ''Player 1:'',
     ''- Seven of Clubs'',
     ''- Six of Hearts (face down)'',
     ''Player 2:'',
     ''- Seven of Diamonds'',
     ''- Six of Spades (face down)'',
     ''Continuing war...'',
     ''Round 1, War 7'',
     ''Player 1:'',
     ''- Eight of Clubs'',
     ''- Seven of Hearts (face down)'',
     ''Player 2:'',
     ''- Eight of Diamonds'',
     ''- Seven of Spades (face down)'',
     ''Continuing war...'',
     ''Round 1, War 8'',
     ''Player 1:'',
     ''- Nine of Clubs'',
     ''- Eight of Hearts (face down)'',
     ''Player 2:'',
     ''- Nine of Diamonds'',
     ''- Eight of Spades (face down)'',
     ''Continuing war...'',
     ''Round 1, War 9'',
     ''Player 1:'',
     ''- Ten of Clubs'',
     ''- Nine of Hearts (face down)'',
     ''Player 2:'',
     ''- Ten of Diamonds'',
     ''- Nine of Spades (face down)'',
     ''Continuing war...'',
     ''Round 1, War 10'',
     ''Player 1:'',
     ''- Jack of Clubs'',
     ''- Ten of Hearts (face down)'',
     ''Player 2:'',
     ''- Jack of Diamonds'',
     ''- Ten of Spades (face down)'',
     ''Continuing war...'',
     ''Round 1, War 11'',
     ''Player 1:'',
     ''- Queen of Clubs'',
     ''- Jack of Hearts (face down)'',
     ''Player 2:'',
     ''- Queen of Diamonds'',
     ''- Jack of Spades (face down)'',
     ''Continuing war...'',
     ''Round 1, War 12'',
     ''Player 1:'',
     ''- King of Clubs'',
     ''- King of Diamonds (face down)'',
     ''Player 2:'',
     ''- Queen of Spades'',
     ''- King of Hearts (face down)'',
     ''Round winner: Player 1 (King of Clubs)'',
     ''Round 2'',
     ''Player 1:'',
     ''- King of Spades'',
     ''Player 2:'',
     ''- Queen of Hearts'',
     ''Round winner: Player 1 (King of Spades)'',
     ''Round 3'',
     '''',
     ''  '']"

definition game_3_end :: string where
  "game_3_end = ''Player 1 wins with 0 cards in their deck''"

definition game_1_end :: string where
  "game_1_end = ''Player 1 wins with 7 cards in their deck''"

definition game_2_end :: string where
  "game_2_end = ''Player 2 wins with 48 cards in their deck''"

lemma game_1_before_end:
  "validate_lines game_1 default_WarOutputValidator =
     Returns \<lparr> line_number = 102, state = WINNER_PLAYER_1,
               error = Some (GameDidNotEnd WINNER_PLAYER_1 WAR_ONGOING (Some PLAYER_1_WIN)
                               [(1, 48), (2, 2)]) \<rparr>"
  by code_simp

lemma game_1_accepted:
  "validate_lines (game_1 @ game_1_end # []) default_WarOutputValidator =
     Returns \<lparr> line_number = 103, state = NO_MORE_LINES, error = None \<rparr>"
  by code_simp

lemma game_1_end_parsed: "parse_line default_LineParser game_1_end = GameWinnerLine 1 7"
  by code_simp

lemma game_3_before_end:
  "validate_lines game_3 default_WarOutputValidator =
     Returns \<lparr> line_number = 112, state = WINNER_PLAYER_1,
               error = Some (GameDidNotEnd WINNER_PLAYER_1 NO_WAR (Some PLAYER_1_WIN)
                               [(1, 52), (2, 0)]) \<rparr>"
  by code_simp

lemma game_3_accepted:
  "validate_lines (game_3 @ game_3_end # []) default_WarOutputValidator =
     Returns \<lparr> line_number = 113, state = NO_MORE_LINES, error = None \<rparr>"
  by code_simp

lemma game_3_end_parsed: "parse_line default_LineParser game_3_end = GameWinnerLine 1 0"
  by code_simp

lemma other_ends_parsed:
  "parse_line default_LineParser ''Player 1 wins with 48 cards in their deck''
     = GameWinnerLine 1 48"
  "parse_line default_LineParser ''Player 1 wins with 52 cards in their deck''
     = GameWinnerLine 1 52"
  by code_simp+

section \<open>The derived outcome when player 2 is the only player left\<close>

text \<open>A default validator whose tracker holds the given counts for players 1 and 2.\<close>

definition with_counts :: "int \<Rightarrow> int \<Rightarrow> WarOutputValidator" where
  "with_counts n1 n2 =
    default_WarOutputValidator
      \<lparr> v_card_validator :=
          default_CardConsistencyValidator\<lparr> actual_card_counts := [(1, n1), (2, n2)] \<rparr> \<rparr>"

text \<open>
  C1 (the code at the failing input). The claim has the outcome derived as a win of
  player 2 when player 2 is the only player with cards left. With the counts 2 and 48
  and the threshold 2 the player left is player 2 and the outcome stays unset, while
  with the counts 48 and 2 it becomes the win of player 1. In
  \<^verbatim>\<open>_update_game_end_state_after_n_draws\<close> the test for player 2 is nested in the
  branch of player 1, so the outcome stays unset (\<open>update_game_end_player_2\<close>). In
  \<open>game_2\<close> player 2 is the only player with more than 2 cards at the war-round header
  that ends the transcript, the outcome is still \<open>None\<close> there, the machine goes on
  to expect the label of player 1, and the winner line of player 2 is rejected; the mirror
  image \<open>game_1\<close> derives the win of player 1 and is accepted.
\<close>

theorem player_2_win_not_derived:
  "get_players_left_after_n_draws 2 (with_counts 2 48) = [2]
   \<and> v_game_end_state (update_game_end_state_after_n_draws 2 (with_counts 2 48)) = None
   \<and> get_players_left_after_n_draws 2 (with_counts 48 2) = [1]
   \<and> v_game_end_state (update_game_end_state_after_n_draws 2 (with_counts 48 2))
       = Some PLAYER_1_WIN
   \<and> validate_lines game_2 default_WarOutputValidator =
     Returns \<lparr> line_number = 102, state = WAR_PLAYER_1_LABEL,
               error = Some (GameDidNotEnd WAR_PLAYER_1_LABEL WAR_ONGOING None
                               [(1, 2), (2, 48)]) \<rparr>
   \<and> validate_lines (game_2 @ [game_2_end]) default_WarOutputValidator =
     Returns \<lparr> line_number = 102, state = WAR_PLAYER_1_LABEL,
               error = Some (UnexpectedLine (GameWinnerLine 2 48) WAR_PLAYER_1_LABEL
                               WAR_ONGOING None [(1, 2), (2, 48)]) \<rparr>"
proof -
  have left: "get_players_left_after_n_draws 2 (with_counts 2 48) = [2]"
    "get_players_left_after_n_draws 2 (with_counts 48 2) = [1]"
    by (simp_all add: get_players_left_after_n_draws_def with_counts_def
        get_player_cards_left_def)
  have unset: "v_game_end_state (update_game_end_state_after_n_draws 2 (with_counts 2 48))
      = None"
    by (simp add: update_game_end_player_2 left)
       (simp add: with_counts_def default_WarOutputValidator_def)
  have set1: "v_game_end_state (update_game_end_state_after_n_draws 2 (with_counts 48 2))
      = Some PLAYER_1_WIN"
    by (simp add: update_game_end_state_after_n_draws_def left)
  have run: "validate_lines game_2 default_WarOutputValidator =
     Returns \<lparr> line_number = 102, state = WAR_PLAYER_1_LABEL,
               error = Some (GameDidNotEnd WAR_PLAYER_1_LABEL WAR_ONGOING None
                               [(1, 2), (2, 48)]) \<rparr>"
    by code_simp
  have last: "validate_lines (game_2 @ [game_2_end]) default_WarOutputValidator =
     Returns \<lparr> line_number = 102, state = WAR_PLAYER_1_LABEL,
               error = Some (UnexpectedLine (GameWinnerLine 2 48) WAR_PLAYER_1_LABEL
                               WAR_ONGOING None [(1, 2), (2, 48)]) \<rparr>"
    by code_simp
  from left unset set1 run last show ?thesis by simp
qed

section \<open>The terminal winner line\<close>

text \<open>
  The threshold a header line derives the outcome with (\<^verbatim>\<open>0\<close> at a round header,
  \<^verbatim>\<open>2\<close> at a war-round header), and what it means that the winner \<open>p\<close> was derived
  by the last header of the lines \<open>pre\<close>: \<open>pre\<close> ends with a round or war-round
  header followed by blank lines only, and in the state \<open>s\<close> reached after \<open>pre\<close>
  player \<open>p\<close> is the only player whose count exceeds the threshold of that header.
\<close>

definition header_threshold :: "Line \<Rightarrow> int" where
  "header_threshold h = (if is_RoundLine h then 0 else 2)"

definition winner_derived_by_header ::
  "string list \<Rightarrow> WarOutputValidator \<Rightarrow> PlayerId \<Rightarrow> bool" where
  "winner_derived_by_header pre s p \<longleftrightarrow>
    (\<exists>pre1 h blanks.
       pre = pre1 @ h # blanks
       \<and> (\<forall>b \<in> set blanks. parse_line default_LineParser b = EmptyLine)
       \<and> (is_RoundLine (parse_line default_LineParser h)
            \<or> is_WarRoundLine (parse_line default_LineParser h))
       \<and> get_players_left_after_n_draws
            (header_threshold (parse_line default_LineParser h)) s = [p])"

lemma validate_loop_append:
  "validate_loop (xs @ ys) self =
     (case validate_loop xs self of
        Raises x \<Rightarrow> Raises x
      | Returns (Some e, s1) \<Rightarrow> Returns (Some e, s1)
      | Returns (None, s1) \<Rightarrow> validate_loop ys s1)"
  by (induction xs arbitrary: self) (auto split: outcome.splits option.splits prod.splits)

lemma validate_loop_snoc:
  assumes "validate_loop (xs @ [x]) self = Returns (None, s)"
  shows "\<exists>s0 s1. validate_loop xs self = Returns (None, s0)
           \<and> validate_line x s0 = Returns (None, s1)
           \<and> s = s1\<lparr> v_line_number := v_line_number s1 + 1 \<rparr>"
  using assms
  by (auto simp: validate_loop_append split: outcome.splits option.splits prod.splits)

lemma validate_record_count_free:
  assumes "validate_record (GameWinnerLine p c) self = Returns (None, s2)"
  shows "validate_record (GameWinnerLine p c') self = Returns (None, s2)"
  using assms
  by (cases "v_game_end_state self")
     (auto simp: validate_record_def update_state_def next_state_def next_state_game_end_def
        next_state_game_ongoing_def split: option.splits if_splits)

lemma validate_record_empty:
  assumes "validate_record EmptyLine self = Returns (None, s1)"
  shows "s1 = self"
  using assms by (simp add: validate_record_def update_state_def next_state_def)

lemma players_left_frame:
  "v_card_validator b = v_card_validator a
     \<Longrightarrow> get_players_left_after_n_draws n b = get_players_left_after_n_draws n a"
  by (simp add: get_players_left_after_n_draws_def)

lemma header_step:
  assumes oi: "outcome_inv s0"
    and v: "validate_record l s0 = Returns (None, s1)"
    and ne: "\<not> is_EmptyLine l"
    and w: "v_parse_manager s1 = WINNER_PLAYER_1 \<or> v_parse_manager s1 = WINNER_PLAYER_2"
  shows "(is_RoundLine l \<or> is_WarRoundLine l)
       \<and> v_parse_manager s1 = WINNER_PLAYER_1
       \<and> get_players_left_after_n_draws (header_threshold l) s1 = [1]"
proof -
  from v obtain mid where c: "check_line l s0 = Returns (None, mid)"
    and ns: "next_state (v_parse_manager s0) l (v_war_state mid) (v_game_end_state mid)
           = Some (v_parse_manager s1)"
    and s1: "s1 = mid\<lparr> v_parse_manager := v_parse_manager s1 \<rparr>"
    by (rule validate_record_success)
  have cv1: "v_card_validator s1 = v_card_validator mid" by (subst s1) simp
  from outcome_inv_step[OF oi v] have oi1: "outcome_inv s1" .
  have hdr: "v_game_end_state mid = Some PLAYER_1_WIN \<or> v_game_end_state mid = Some PLAYER_2_WIN"
    and st: "v_parse_manager s0 = REGULAR_ROUND \<and> is_RoundLine l
        \<or> v_parse_manager s0 = WAR_ROUND \<and> is_WarRoundLine l"
    using w ns next_state_winner_1[of "v_parse_manager s0" l "v_war_state mid"
        "v_game_end_state mid", OF _ ne]
      next_state_winner_2[of "v_parse_manager s0" l "v_war_state mid"
        "v_game_end_state mid", OF _ ne]
    by auto
  from st oi have none: "v_game_end_state s0 = None" by (auto simp: outcome_inv_def)
  have mid: "mid = update_game_end_state_after_n_draws (header_threshold l) s0"
  proof (cases "is_RoundLine l")
    case True
    with check_line_round[OF c] show ?thesis by (simp add: header_threshold_def)
  next
    case False
    with st have "is_WarRoundLine l" by auto
    with check_line_war_round[OF c] False show ?thesis by (simp add: header_threshold_def)
  qed
  from update_game_end_derives(2)[OF none, of "header_threshold l"] hdr mid
  have g: "v_game_end_state mid = Some PLAYER_1_WIN" by auto
  from update_game_end_derives(1)[OF none, of "header_threshold l"] g mid
  have "get_players_left_after_n_draws (header_threshold l) s0 = [1]" by simp
  then have pl: "get_players_left_after_n_draws (header_threshold l) s1 = [1]"
    by (simp add: players_left_frame[OF cv1] mid players_left_update)
  have "v_parse_manager s1 = WINNER_PLAYER_1"
  proof (rule ccontr)
    assume "v_parse_manager s1 \<noteq> WINNER_PLAYER_1"
    with w have w2: "v_parse_manager s1 = WINNER_PLAYER_2" by simp
    with ns have "next_state (v_parse_manager s0) l (v_war_state mid) (v_game_end_state mid)
        = Some WINNER_PLAYER_2" by simp
    from next_state_winner_2[OF this ne] g show False by simp
  qed
  with st pl show ?thesis by auto
qed

definition header_inv :: "string list \<Rightarrow> WarOutputValidator \<Rightarrow> bool" where
  "header_inv pre s \<longleftrightarrow>
     (v_parse_manager s = WINNER_PLAYER_1 \<longrightarrow> winner_derived_by_header pre s 1)
     \<and> (v_parse_manager s = WINNER_PLAYER_2 \<longrightarrow> winner_derived_by_header pre s 2)"

lemma validate_loop_header_inv:
  "validate_loop pre default_WarOutputValidator = Returns (None, s) \<Longrightarrow> header_inv pre s"
proof (induction pre arbitrary: s rule: rev_induct)
  case Nil
  then have "s = default_WarOutputValidator" by simp
  then show ?case by (simp add: header_inv_def default_WarOutputValidator_def)
next
  case (snoc x xs)
  from validate_loop_snoc[OF snoc.prems] obtain s0 s1 where
    l0: "validate_loop xs default_WarOutputValidator = Returns (None, s0)"
    and v: "validate_line x s0 = Returns (None, s1)"
    and s: "s = s1\<lparr> v_line_number := v_line_number s1 + 1 \<rparr>" by blast
  from validate_loop_inv[OF l0 validator_wf_default outcome_inv_default]
  have wf: "validator_wf s0" and oi: "outcome_inv s0" by simp_all
  from snoc.IH[OF l0] have hi: "header_inv xs s0" .
  let ?l = "parse_line default_LineParser x"
  from wf v have vr: "validate_record ?l s0 = Returns (None, s1)"
    by (simp add: validate_line_def validator_wf_def)
  have pm: "v_parse_manager s = v_parse_manager s1" by (simp add: s)
  have cv: "v_card_validator s = v_card_validator s1" by (simp add: s)
  show ?case
  proof (cases "is_EmptyLine ?l")
    case True
    then have e: "?l = EmptyLine" by (cases ?l) auto
    with vr have same: "s1 = s0" by (simp add: validate_record_empty)
    have "winner_derived_by_header (xs @ [x]) s p" if "winner_derived_by_header xs s0 p" for p
    proof -
      from that obtain pre1 h blanks where
        "xs = pre1 @ h # blanks"
        "\<forall>b \<in> set blanks. parse_line default_LineParser b = EmptyLine"
        "is_RoundLine (parse_line default_LineParser h)
            \<or> is_WarRoundLine (parse_line default_LineParser h)"
        "get_players_left_after_n_draws
            (header_threshold (parse_line default_LineParser h)) s0 = [p]"
        unfolding winner_derived_by_header_def by blast
      then have "xs @ [x] = pre1 @ h # (blanks @ [x])
        \<and> (\<forall>b \<in> set (blanks @ [x]). parse_line default_LineParser b = EmptyLine)
        \<and> (is_RoundLine (parse_line default_LineParser h)
            \<or> is_WarRoundLine (parse_line default_LineParser h))
        \<and> get_players_left_after_n_draws
            (header_threshold (parse_line default_LineParser h)) s = [p]"
        using e same cv by (simp add: players_left_frame[of s s0])
      then show ?thesis unfolding winner_derived_by_header_def by blast
    qed
    with hi pm same show ?thesis by (simp add: header_inv_def)
  next
    case False
    show ?thesis
    proof (cases "v_parse_manager s1 = WINNER_PLAYER_1 \<or> v_parse_manager s1 = WINNER_PLAYER_2")
      case True
      from header_step[OF oi vr False True] have
        h: "is_RoundLine ?l \<or> is_WarRoundLine ?l"
        and w1: "v_parse_manager s1 = WINNER_PLAYER_1"
        and pl: "get_players_left_after_n_draws (header_threshold ?l) s1 = [1]" by simp_all
      have "xs @ [x] = xs @ x # []
        \<and> (\<forall>b \<in> set ([]::string list). parse_line default_LineParser b = EmptyLine)
        \<and> (is_RoundLine ?l \<or> is_WarRoundLine ?l)
        \<and> get_players_left_after_n_draws (header_threshold ?l) s = [1]"
        using h pl by (simp add: players_left_frame[OF cv])
      then have "winner_derived_by_header (xs @ [x]) s 1"
        unfolding winner_derived_by_header_def by blast
      with w1 pm show ?thesis by (simp add: header_inv_def)
    next
      case False
      with pm show ?thesis by (simp add: header_inv_def)
    qed
  qed
qed

lemma parse_line_game_winner_range:
  assumes "parse_line self l = GameWinnerLine w c"
  shows "w \<in> set (valid_player_numbers self) \<and> 0 \<le> c \<and> c \<le> max_cards self"
  using assms
  by (auto simp: parse_line_def Let_def or_malformed_def round_line_of_def
      player_label_line_of_def card_line_of_def round_winner_line_of_def war_round_line_of_def
      game_winner_line_of_def split: option.splits if_splits)

text \<open>
  C2 (as the claim states it, refuted). \<open>game_1\<close> ends with player 1 as the derived
  winner, holding 48 cards; the winner line names player 1 and declares 7 cards, and the
  transcript is accepted. So is \<open>game_3\<close>, where player 1 holds 52 cards and the
  winner line declares 0.
\<close>

theorem declared_card_count_counterexample:
  "validate_lines (game_1 @ game_1_end # []) default_WarOutputValidator =
     Returns \<lparr> line_number = 103, state = NO_MORE_LINES, error = None \<rparr>
   \<and> parse_line default_LineParser game_1_end = GameWinnerLine 1 7
   \<and> validate_lines game_1 default_WarOutputValidator =
     Returns \<lparr> line_number = 102, state = WINNER_PLAYER_1,
               error = Some (GameDidNotEnd WINNER_PLAYER_1 WAR_ONGOING (Some PLAYER_1_WIN)
                               [(1, 48), (2, 2)]) \<rparr>
   \<and> validate_lines (game_3 @ game_3_end # []) default_WarOutputValidator =
     Returns \<lparr> line_number = 113, state = NO_MORE_LINES, error = None \<rparr>
   \<and> parse_line default_LineParser game_3_end = GameWinnerLine 1 0
   \<and> validate_lines game_3 default_WarOutputValidator =
     Returns \<lparr> line_number = 112, state = WINNER_PLAYER_1,
               error = Some (GameDidNotEnd WINNER_PLAYER_1 NO_WAR (Some PLAYER_1_WIN)
                               [(1, 52), (2, 0)]) \<rparr>"
  using game_1_accepted game_1_end_parsed game_1_before_end
    game_3_accepted game_3_end_parsed game_3_before_end by simp

text \<open>
  C2 (amended). If a transcript is accepted by a fresh default validator, then at each of
  its winner lines the named player is the derived winner: the outcome derived before
  that line is the win of the named player; the lines before it end with a round or
  war-round header followed by blank lines only, and the named player is the only player
  whose count exceeds the threshold of that header (0 at a round header, 2 at a
  war-round header). The declared card count lies in 0..52 and is not compared with any
  count: the transcript with that line replaced by any line that classifies as a winner
  line of the same player, with whatever count, gets the same result.
\<close>

theorem game_winner_names_derived_winner:
  assumes "validate_lines (pre @ l # post) default_WarOutputValidator = Returns r"
    and "error r = None"
    and "parse_line default_LineParser l = GameWinnerLine w c"
  shows "(\<exists>s. validate_loop pre default_WarOutputValidator = Returns (None, s)
          \<and> (w = 1 \<and> v_game_end_state s = Some PLAYER_1_WIN
               \<or> w = 2 \<and> v_game_end_state s = Some PLAYER_2_WIN)
          \<and> (\<exists>n \<in> {0, 2}. get_players_left_after_n_draws n s = [w])
          \<and> winner_derived_by_header pre s w
          \<and> 0 \<le> c \<and> c \<le> 52)
       \<and> (\<forall>l' c'. parse_line default_LineParser l' = GameWinnerLine w c'
             \<longrightarrow> validate_lines (pre @ l' # post) default_WarOutputValidator = Returns r)"
proof -
  from assms(1,2) obtain fin where
    fin: "validate_loop (pre @ l # post) default_WarOutputValidator = Returns (None, fin)"
    by (auto simp: validate_lines_def split: outcome.splits option.splits prod.splits if_splits)
  from validate_loop_split[OF this] obtain s1 s2 where
    pre: "validate_loop pre default_WarOutputValidator = Returns (None, s1)"
    and v: "validate_line l s1 = Returns (None, s2)" by blast
  from validate_loop_inv[OF pre validator_wf_default outcome_inv_default]
  have wf: "validator_wf s1" and oi: "outcome_inv s1" by simp_all
  from validate_loop_header_inv[OF pre] have hi: "header_inv pre s1" .
  from wf have parser: "v_parser s1 = default_LineParser" by (simp add: validator_wf_def)
  with v assms(3) have vr: "validate_record (GameWinnerLine w c) s1 = Returns (None, s2)"
    by (simp add: validate_line_def)
  from vr obtain mid where c: "check_line (GameWinnerLine w c) s1 = Returns (None, mid)"
    and ns: "next_state (v_parse_manager s1) (GameWinnerLine w c) (v_war_state mid)
               (v_game_end_state mid) = Some (v_parse_manager s2)"
    and "s2 = mid\<lparr> v_parse_manager := v_parse_manager s2 \<rparr>"
    by (rule validate_record_success)
  from next_state_game_winner[OF ns]
  have st: "v_parse_manager s1 = WINNER_PLAYER_1 \<and> w = 1
            \<or> v_parse_manager s1 = WINNER_PLAYER_2 \<and> w = 2" by simp
  with oi have a:
    "(w = 1 \<and> v_game_end_state s1 = Some PLAYER_1_WIN
        \<or> w = 2 \<and> v_game_end_state s1 = Some PLAYER_2_WIN)
     \<and> (\<exists>n \<in> {0, 2}. get_players_left_after_n_draws n s1 = [w])"
    by (auto simp: outcome_inv_def)
  from st hi have b: "winner_derived_by_header pre s1 w" by (auto simp: header_inv_def)
  from parse_line_game_winner_range[OF assms(3)] have d: "0 \<le> c \<and> c \<le> 52"
    by (simp add: default_LineParser_def)
  have first: "\<exists>s. validate_loop pre default_WarOutputValidator = Returns (None, s)
          \<and> (w = 1 \<and> v_game_end_state s = Some PLAYER_1_WIN
               \<or> w = 2 \<and> v_game_end_state s = Some PLAYER_2_WIN)
          \<and> (\<exists>n \<in> {0, 2}. get_players_left_after_n_draws n s = [w])
          \<and> winner_derived_by_header pre s w
          \<and> 0 \<le> c \<and> c \<le> 52"
    using pre a b d by blast
  have second: "validate_lines (pre @ l' # post) default_WarOutputValidator = Returns r"
    if p': "parse_line default_LineParser l' = GameWinnerLine w c'" for l' c'
  proof -
    from validate_record_count_free[OF vr, of c'] p' parser
    have "validate_line l' s1 = Returns (None, s2)" by (simp add: validate_line_def)
    with v have "validate_line l' s1 = validate_line l s1" by simp
    then have "validate_loop (pre @ l' # post) default_WarOutputValidator
        = validate_loop (pre @ l # post) default_WarOutputValidator"
      by (simp add: validate_loop_append pre)
    with assms(1) show ?thesis by (simp add: validate_lines_def)
  qed
  from first second show ?thesis by blast
qed

theorem game_winner_names_derived_winner_witness:
  "validate_lines (game_1 @ game_1_end # []) default_WarOutputValidator =
     Returns \<lparr> line_number = 103, state = NO_MORE_LINES, error = None \<rparr>
   \<and> error \<lparr> line_number = 103, state = NO_MORE_LINES, error = None \<rparr> = None
   \<and> parse_line default_LineParser game_1_end = GameWinnerLine 1 7
   \<and> (\<exists>s. validate_loop game_1 default_WarOutputValidator = Returns (None, s)
          \<and> v_game_end_state s = Some PLAYER_1_WIN
          \<and> winner_derived_by_header game_1 s 1)
   \<and> validate_lines (game_1 @ ''Player 1 wins with 48 cards in their deck'' # [])
       default_WarOutputValidator =
     Returns \<lparr> line_number = 103, state = NO_MORE_LINES, error = None \<rparr>
   \<and> validate_lines (game_3 @ game_3_end # []) default_WarOutputValidator =
     Returns \<lparr> line_number = 113, state = NO_MORE_LINES, error = None \<rparr>
   \<and> error \<lparr> line_number = 113, state = NO_MORE_LINES, error = None \<rparr> = None
   \<and> parse_line default_LineParser game_3_end = GameWinnerLine 1 0
   \<and> (\<exists>s. validate_loop game_3 default_WarOutputValidator = Returns (None, s)
          \<and> v_game_end_state s = Some PLAYER_1_WIN
          \<and> winner_derived_by_header game_3 s 1)
   \<and> validate_lines (game_3 @ ''Player 1 wins with 52 cards in their deck'' # [])
       default_WarOutputValidator =
     Returns \<lparr> line_number = 113, state = NO_MORE_LINES, error = None \<rparr>"
proof -
  have e1: "error \<lparr> line_number = 103, state = NO_MORE_LINES, error = None \<rparr> = None"
    by simp
  have e3: "error \<lparr> line_number = 113, state = NO_MORE_LINES, error = None \<rparr> = None"
    by simp
  note g1 = game_winner_names_derived_winner [OF game_1_accepted e1 game_1_end_parsed]
  note g3 = game_winner_names_derived_winner [OF game_3_accepted e3 game_3_end_parsed]
  from g1 have a1: "\<exists>s. validate_loop game_1 default_WarOutputValidator = Returns (None, s)
          \<and> v_game_end_state s = Some PLAYER_1_WIN
          \<and> winner_derived_by_header game_1 s 1"
    by auto
  from g1 other_ends_parsed(1)
  have b1: "validate_lines (game_1 @ ''Player 1 wins with 48 cards in their deck'' # [])
       default_WarOutputValidator =
     Returns \<lparr> line_number = 103, state = NO_MORE_LINES, error = None \<rparr>"
    by blast
  from g3 have a3: "\<exists>s. validate_loop game_3 default_WarOutputValidator = Returns (None, s)
          \<and> v_game_end_state s = Some PLAYER_1_WIN
          \<and> winner_derived_by_header game_3 s 1"
    by auto
  from g3 other_ends_parsed(2)
  have b3: "validate_lines (game_3 @ ''Player 1 wins with 52 cards in their deck'' # [])
       default_WarOutputValidator =
     Returns \<lparr> line_number = 113, state = NO_MORE_LINES, error = None \<rparr>"
    by blast
  from game_1_accepted e1 game_1_end_parsed a1 b1 game_3_accepted e3 game_3_end_parsed a3 b3
  show ?thesis by (intro conjI)
qed

section \<open>The terminal state\<close>

lemma no_more_lines_validator:
  assumes "v_parse_manager self = NO_MORE_LINES"
    and "parse_line (v_parser self) line_str \<noteq> EmptyLine"
  shows "validate_line line_str self \<noteq> Returns (None, self1)"
proof
  assume "validate_line line_str self = Returns (None, self1)"
  then have vr: "validate_record (parse_line (v_parser self) line_str) self
      = Returns (None, self1)" by (simp add: validate_line_def)
  from vr obtain mid where
    "check_line (parse_line (v_parser self) line_str) self = Returns (None, mid)"
    and "next_state (v_parse_manager self) (parse_line (v_parser self) line_str)
       (v_war_state mid) (v_game_end_state mid) = Some (v_parse_manager self1)"
    by (rule validate_record_success)
  moreover have "\<not> is_EmptyLine (parse_line (v_parser self) line_str)"
    using assms(2) by (cases "parse_line (v_parser self) line_str") auto
  ultimately show False
    using assms(1)
    by (cases "v_game_end_state mid") (auto simp: next_state_defs)
qed

text \<open>
  C10. Once the machine is in \<open>NO_MORE_LINES\<close>, every record other than the empty line
  is rejected, whatever the war state and the game-end outcome; the empty line is the only
  transition, and it is a self-loop. So a validator in that state validates no line that
  is not blank: any further content fails.
\<close>

theorem no_more_lines_rejects:
  "next_state NO_MORE_LINES l w g = (if is_EmptyLine l then Some NO_MORE_LINES else None)
   \<and> (\<forall>self line_str self1.
        v_parse_manager self = NO_MORE_LINES
        \<longrightarrow> parse_line (v_parser self) line_str \<noteq> EmptyLine
        \<longrightarrow> validate_line line_str self \<noteq> Returns (None, self1))"
proof -
  have "next_state NO_MORE_LINES l w g = (if is_EmptyLine l then Some NO_MORE_LINES else None)"
    by (cases g) (simp_all add: next_state_defs)
  then show ?thesis using no_more_lines_validator by blast
qed

lemma trailing_line_rejected:
  "validate_lines (game_1 @ [game_1_end, [], ''Round 2'']) default_WarOutputValidator =
     Returns \<lparr> line_number = 104, state = NO_MORE_LINES,
               error = Some (UnexpectedLine (RoundLine 2) NO_MORE_LINES WAR_ONGOING
                               (Some PLAYER_1_WIN) [(1, 48), (2, 2)]) \<rparr>"
  by code_simp

theorem no_more_lines_rejects_witness:
  "v_parse_manager (default_WarOutputValidator\<lparr> v_parse_manager := NO_MORE_LINES \<rparr>)
     = NO_MORE_LINES
   \<and> parse_line
        (v_parser (default_WarOutputValidator\<lparr> v_parse_manager := NO_MORE_LINES \<rparr>))
        ''Round 1'' \<noteq> EmptyLine
   \<and> (\<forall>self1. validate_line ''Round 1''
                 (default_WarOutputValidator\<lparr> v_parse_manager := NO_MORE_LINES \<rparr>)
               \<noteq> Returns (None, self1))
   \<and> next_state NO_MORE_LINES (RoundLine 1) NO_WAR None = None
   \<and> validate_lines (game_1 @ [game_1_end, [], ''Round 2'']) default_WarOutputValidator =
     Returns \<lparr> line_number = 104, state = NO_MORE_LINES,
               error = Some (UnexpectedLine (RoundLine 2) NO_MORE_LINES WAR_ONGOING
                               (Some PLAYER_1_WIN) [(1, 48), (2, 2)]) \<rparr>"
proof -
  let ?v = "default_WarOutputValidator\<lparr> v_parse_manager := NO_MORE_LINES \<rparr>"
  have a: "v_parse_manager ?v = NO_MORE_LINES" by simp
  have "parse_line default_LineParser ''Round 1'' = RoundLine 1" by code_simp
  then have b: "parse_line (v_parser ?v) ''Round 1'' \<noteq> EmptyLine"
    by (simp add: default_WarOutputValidator_def)
  from no_more_lines_rejects [of "RoundLine 1" NO_WAR None] a b
  have "(\<forall>self1. validate_line ''Round 1'' ?v \<noteq> Returns (None, self1))
      \<and> next_state NO_MORE_LINES (RoundLine 1) NO_WAR None = None"
    by auto
  with a b trailing_line_rejected show ?thesis by blast
qed

end
